theory Spec2Isabelle
  imports Main "HOL-Library.Sublist"
begin

section \<open>FEMA National Risk Index: schema and TMCF generation\<close>

text \<open>
  A shallow embedding of \<^verbatim>\<open>scripts/us_fema/national_risk_index/generate_schema_and_tmcf.py\<close>.
  Python strings are \<^typ>\<open>string\<close>, a character being one of the 256 code points of
  Latin-1; \<^verbatim>\<open>str.isspace\<close>, \<^verbatim>\<open>str.strip\<close>, \<^verbatim>\<open>str.isupper\<close> and
  \<^verbatim>\<open>str.upper\<close> are those of Python on these code points. Every \<^verbatim>\<open>IndexError\<close> the source can raise
  is a value of the result type. The rows are the records that \<^verbatim>\<open>pandas\<close> hands to the
  loop; reading the CSV, formatting the date and writing the three files are outside the model.
\<close>

subsection \<open>Python string primitives\<close>

datatype error = IndexError

definition nl :: string where
  "nl = [CHR 0x0A]"

definition dq :: string where
  "dq = [CHR 0x22]"

definition whitespace :: "char list" where
  "whitespace = [CHR 0x09, CHR 0x0A, CHR 0x0B, CHR 0x0C, CHR 0x0D,
                 CHR 0x1C, CHR 0x1D, CHR 0x1E, CHR 0x1F, CHR '' '', CHR 0x85, CHR 0xA0]"

definition isspace :: "char \<Rightarrow> bool" where
  "isspace c = (c \<in> set whitespace)"

definition lower_letters :: "char list" where
  "lower_letters = ''abcdefghijklmnopqrstuvwxyz'' @
     [CHR 0xE0, CHR 0xE1, CHR 0xE2, CHR 0xE3, CHR 0xE4, CHR 0xE5, CHR 0xE6, CHR 0xE7,
      CHR 0xE8, CHR 0xE9, CHR 0xEA, CHR 0xEB, CHR 0xEC, CHR 0xED, CHR 0xEE, CHR 0xEF,
      CHR 0xF0, CHR 0xF1, CHR 0xF2, CHR 0xF3, CHR 0xF4, CHR 0xF5, CHR 0xF6,
      CHR 0xF8, CHR 0xF9, CHR 0xFA, CHR 0xFB, CHR 0xFC, CHR 0xFD, CHR 0xFE]"

definition upper_letters :: "char list" where
  "upper_letters = ''ABCDEFGHIJKLMNOPQRSTUVWXYZ'' @
     [CHR 0xC0, CHR 0xC1, CHR 0xC2, CHR 0xC3, CHR 0xC4, CHR 0xC5, CHR 0xC6, CHR 0xC7,
      CHR 0xC8, CHR 0xC9, CHR 0xCA, CHR 0xCB, CHR 0xCC, CHR 0xCD, CHR 0xCE, CHR 0xCF,
      CHR 0xD0, CHR 0xD1, CHR 0xD2, CHR 0xD3, CHR 0xD4, CHR 0xD5, CHR 0xD6,
      CHR 0xD8, CHR 0xD9, CHR 0xDA, CHR 0xDB, CHR 0xDC, CHR 0xDD, CHR 0xDE]"

definition isupper :: "char \<Rightarrow> bool" where
  "isupper c = (c \<in> set upper_letters)"

text \<open>
  \<^verbatim>\<open>c.upper()\<close> is a string: the capital of \<open>0xDF\<close> is \<open>SS\<close>. The capitals of \<open>0xB5\<close>
  and \<open>0xFF\<close> are the code points \<open>U+039C\<close> and \<open>U+0178\<close>, which the character type does
  not have; these two characters are left as they are.
\<close>

definition upper :: "char \<Rightarrow> string" where
  "upper c =
     (if c = CHR 0xDF then ''SS''
      else case map_of (zip lower_letters upper_letters) c of Some u \<Rightarrow> [u] | None \<Rightarrow> [c])"

text \<open>\<^verbatim>\<open>s.strip()\<close>: leading and trailing whitespace removed.\<close>

definition strip :: "string \<Rightarrow> string" where
  "strip s = rev (dropWhile isspace (rev (dropWhile isspace s)))"

text \<open>
  \<^verbatim>\<open>s.split(sep)\<close> for a non-empty separator: the occurrences of \<open>sep\<close> are found from
  the left and do not overlap; the result is never the empty list.
\<close>

fun py_split :: "string \<Rightarrow> string \<Rightarrow> string list" where
  "py_split sep [] = [[]]"
| "py_split sep (c # cs) =
     (if sep \<noteq> [] \<and> prefix sep (c # cs) then [] # py_split sep (drop (length sep - 1) cs)
      else (case py_split sep cs of [] \<Rightarrow> [[c]] | x # xs \<Rightarrow> (c # x) # xs))"

text \<open>\<^verbatim>\<open>sep.join(xs)\<close>.\<close>

fun py_join :: "string \<Rightarrow> string list \<Rightarrow> string" where
  "py_join sep [] = []"
| "py_join sep [x] = x"
| "py_join sep (x # y # ys) = x @ sep @ py_join sep (y # ys)"

text \<open>\<^verbatim>\<open>s.count(c)\<close> for a one-character \<open>c\<close>.\<close>

definition py_count :: "char \<Rightarrow> string \<Rightarrow> nat" where
  "py_count c s = length (filter (\<lambda>d. d = c) s)"

text \<open>\<^verbatim>\<open>str(n)\<close> for a non-negative integer.\<close>

definition digit :: "nat \<Rightarrow> char" where
  "digit d = ''0123456789'' ! d"

fun str_nat :: "nat \<Rightarrow> string" where
  "str_nat n = (if n < 10 then [digit n] else str_nat (n div 10) @ [digit (n mod 10)])"

declare str_nat.simps [simp del]

subsection \<open>Constants of the module\<close>

definition IGNORED_FIELDS :: "string list" where
  "IGNORED_FIELDS =
    [''OBJECTID'', ''Shape'', ''Shape_Length'', ''Shape_Area'', ''STATE'', ''STATEABBRV'',
     ''STATEFIPS'', ''COUNTY'', ''COUNTYTYPE'', ''COUNTYFIPS'', ''STCOFIPS'', ''NRI_ID'',
     ''TRACT'', ''TRACTFIPS'', ''POPULATION'', ''BUILDVALUE'', ''AGRIVALUE'', ''AREA'',
     ''NRI_VER'', ''AIANNHCE'', ''FEDREG2020'', ''FEDERAL_ID'', ''JURS_NAME'', ''JURS_AREA'',
     ''JURS_TYPE'', ''HIFLD_NAME'', ''HIFLD_AREA'', ''HIFLD_TYPE'']"

text \<open>
  The four feature flags are module constants, all \<^verbatim>\<open>True\<close>; each guards one
  \<^verbatim>\<open>extend\<close> of the skip vocabulary, so the vocabulary is a function of the flags.
\<close>

record flags =
  FLAG_SKIP_EAL_COMPONENTS :: bool
  FLAG_SKIP_IMPACTED_THING_COMPONENTS :: bool
  FLAG_SKIP_NON_SCORE_RELATIVE_MEASURES :: bool
  FLAG_SKIP_RAW_VALUES :: bool

definition module_flags :: flags where
  "module_flags = \<lparr>FLAG_SKIP_EAL_COMPONENTS = True,
                   FLAG_SKIP_IMPACTED_THING_COMPONENTS = True,
                   FLAG_SKIP_NON_SCORE_RELATIVE_MEASURES = True,
                   FLAG_SKIP_RAW_VALUES = True\<rparr>"

definition COMPOSITE_ROW_LAYERS :: "string list" where
  "COMPOSITE_ROW_LAYERS =
    [''National Risk Index'', ''Expected Annual Loss'', ''Social Vulnerability'',
     ''Community Resilience'']"

definition EAL_COMPONENTS :: "string list" where
  "EAL_COMPONENTS =
    [''Number of Events'', ''Annualized Frequency'', ''Historic Loss Ratio'', ''Exposure'']"

definition IMPACTED_THING_COMPONENTS :: "string list" where
  "IMPACTED_THING_COMPONENTS = [''Building'', ''Population'', ''Agriculture'']"

definition RAW_VALUE_COMPONENTS :: "string list" where
  "RAW_VALUE_COMPONENTS = [''Social Vulnerability - Value'', ''Community Resilience - Value'']"

definition NON_SCORE_RELATIVE_MEASURES :: "string list" where
  "NON_SCORE_RELATIVE_MEASURES = [''Rating'', ''Percentile'']"

definition DATACOMMONS_ALIASES :: "(string \<times> string) list" where
  "DATACOMMONS_ALIASES =
    [(''Score'', ''FemaNationalRiskScore''),
     (''SocialVulnerability'', ''femaSocialVulnerability''),
     (''CommunityResilience'', ''femaCommunityResilience''),
     (''HazardTypeRiskIndex'', ''femaNaturalHazardRiskIndex''),
     (''NationalRiskIndex'', ''femaNaturalHazardRiskIndex''),
     (''ExpectedAnnualLoss'', ''expectedLoss'')]"

subsection \<open>Rows and extracted properties\<close>

text \<open>
  A row of the data dictionary, with the four columns the script reads.
  \<open>version_iso8601\<close> is the column \<^verbatim>\<open>Version ISO8601\<close> that the loader adds.
\<close>

record row =
  field_name :: string
  field_alias :: string
  relevant_layer :: string
  version_iso8601 :: string

text \<open>
  The properties dictionary. The composite extractor returns only \<open>measured_property\<close>
  and \<open>unit\<close>; the keys it leaves out are read on the individual-hazard path only and are
  the empty string here.
\<close>

record properties =
  hazard_type :: string
  measured_property :: string
  measurement_qualifier :: string
  impacted_thing :: string
  unit :: string
  is_composite :: bool
  source_row :: row

subsection \<open>Helpers\<close>

fun prune_loop :: "'a list \<Rightarrow> 'a list \<Rightarrow> 'a list" where
  "prune_loop k [] = k"
| "prune_loop k (el # l) = prune_loop (if el \<notin> set k then k @ [el] else k) l"

definition prune_list_dupes :: "'a list \<Rightarrow> 'a list" where
  "prune_list_dupes l = prune_loop [] l"

definition capitalize_first :: "string \<Rightarrow> error + string" where
  "capitalize_first s = (case s of [] \<Rightarrow> Inl IndexError | c # cs \<Rightarrow> Inr (upper c @ cs))"

definition drop_spaces :: "string \<Rightarrow> string" where
  "drop_spaces s = filter (\<lambda>c. c \<noteq> CHR '' '') s"

definition apply_datacommon_alias :: "string \<Rightarrow> string" where
  "apply_datacommon_alias s =
     (let key = drop_spaces (strip s)
      in case map_of DATACOMMONS_ALIASES key of Some v \<Rightarrow> v | None \<Rightarrow> s)"

definition get_nth_dash_from_field_alias :: "row \<Rightarrow> nat \<Rightarrow> error + string" where
  "get_nth_dash_from_field_alias r i =
     (let segs = py_split '' - '' (field_alias r)
      in if i < length segs then Inr (segs ! i) else Inl IndexError)"

definition is_composite_row :: "row \<Rightarrow> bool" where
  "is_composite_row r = (relevant_layer r \<in> set COMPOSITE_ROW_LAYERS)"

definition normalize_unit_for_measured_property :: "string \<Rightarrow> string \<Rightarrow> string \<times> string" where
  "normalize_unit_for_measured_property mp u =
     (if u \<noteq> ''FemaNationalRiskScore''
      then (if mp = ''expectedLoss'' then (mp, ''dcid:USDollar'') else (mp, ''''))
      else (mp, u))"

subsection \<open>Property extraction\<close>

definition extract_properties_from_composite_row :: "row \<Rightarrow> error + properties" where
  "extract_properties_from_composite_row r =
     (case get_nth_dash_from_field_alias r 0 of Inl e \<Rightarrow> Inl e | Inr s0 \<Rightarrow>
      (case get_nth_dash_from_field_alias r 1 of Inl e \<Rightarrow> Inl e | Inr s1 \<Rightarrow>
       (let mp = apply_datacommon_alias (drop_spaces s0);
            u = apply_datacommon_alias (drop_spaces s1);
            (mp', u') = normalize_unit_for_measured_property mp u
        in Inr \<lparr>hazard_type = '''', measured_property = mp', measurement_qualifier = '''',
                impacted_thing = '''', unit = u', is_composite = True, source_row = r\<rparr>)))"

text \<open>
  \<^verbatim>\<open>measured_property[:-len(unit)]\<close>: for an empty \<open>unit\<close> the slice is \<^verbatim>\<open>[:0]\<close>,
  the empty string.
\<close>

definition cut_suffix_len :: "string \<Rightarrow> string \<Rightarrow> string" where
  "cut_suffix_len s u = (if length u = 0 then [] else take (length s - length u) s)"

definition split_score_unit :: "string \<Rightarrow> string \<times> string" where
  "split_score_unit mp =
     (if sublist ''Score'' mp \<or> sublist ''Rating'' mp
      then (let u = last (py_split '' '' mp)
            in (apply_datacommon_alias (cut_suffix_len mp u), apply_datacommon_alias u))
      else (mp, ''''))"

definition extract_properties_from_ind_hazard_row :: "row \<Rightarrow> error + properties" where
  "extract_properties_from_ind_hazard_row r =
     (case get_nth_dash_from_field_alias r 0 of Inl e \<Rightarrow> Inl e | Inr s0 \<Rightarrow>
      (let h0 = drop_spaces s0 @ ''Event'';
           h = (if h0 = ''CoastalFloodingEvent'' then ''CoastalFloodEvent'' else h0)
       in case get_nth_dash_from_field_alias r 1 of Inl e \<Rightarrow> Inl e | Inr s1 \<Rightarrow>
        (let (mp1, u1) = split_score_unit (apply_datacommon_alias s1);
             (mp2, u2) = normalize_unit_for_measured_property mp1 u1;
             mq = (if mp2 = ''expectedLoss'' then ''Annual'' else '''');
             mp3 = drop_spaces mp2
         in case (if py_count CHR ''-'' (field_alias r) > 1
                  then (case get_nth_dash_from_field_alias r 2 of Inl e \<Rightarrow> Inl e
                        | Inr s2 \<Rightarrow> Inr (if drop_spaces s2 = ''Total'' then '''' else drop_spaces s2))
                  else Inr '''')
            of Inl e \<Rightarrow> Inl e
             | Inr it \<Rightarrow>
                 Inr \<lparr>hazard_type = h, measured_property = mp3, measurement_qualifier = mq,
                      impacted_thing = (if sublist ''Population'' it then ''Person'' else it),
                      unit = u2, is_composite = False, source_row = r\<rparr>)))"

definition extract_properties_from_row :: "row \<Rightarrow> error + properties" where
  "extract_properties_from_row r =
     (if is_composite_row r then extract_properties_from_composite_row r
      else extract_properties_from_ind_hazard_row r)"

subsection \<open>Names, identifiers and the two node formats\<close>

text \<open>
  \<^verbatim>\<open>add_spaces_before_capital_letters\<close>: a capital becomes a space and the capital, any
  other character becomes \<^verbatim>\<open>char.strip()\<close>, and the joined string is stripped.
\<close>

definition add_spaces_before_capital_letters :: "string \<Rightarrow> string" where
  "add_spaces_before_capital_letters text =
     strip (concat (map (\<lambda>c. if isupper c then CHR '' '' # [c] else strip [c]) text))"

definition format_human_readable_name_from_properties :: "properties \<Rightarrow> bool \<Rightarrow> string" where
  "format_human_readable_name_from_properties p is_comp =
     (let mp = measured_property p;
          statvar_name =
            (if mp = ''expectedLoss'' then ''Annual Expected Loss from Natural Hazard Impact''
             else if mp = ''femaNaturalHazardRiskIndex''
               then ''FEMA National Risk Index for Natural Hazard Impact''
             else ''FEMA '' @ py_join '' '' (tl (py_split '' '' (add_spaces_before_capital_letters mp)))
                    @ '' to Natural Hazard Impact'')
      in if \<not> is_comp
         then statvar_name @ '': '' @
              py_join '' '' (butlast (py_split '' '' (add_spaces_before_capital_letters (hazard_type p))))
         else statvar_name)"

definition COMPOSITE_MCF_FORMAT :: "string \<Rightarrow> string \<Rightarrow> string \<Rightarrow> string" where
  "COMPOSITE_MCF_FORMAT node_dcid m_prop statvar_name =
     ''Node: dcid:'' @ node_dcid @ nl @
     ''typeOf: dcs:StatisticalVariable'' @ nl @
     ''statType: dcs:measuredValue'' @ nl @
     ''populationType: dcs:NaturalHazardImpact'' @ nl @
     ''measuredProperty: dcs:'' @ m_prop @ nl @
     ''name: '' @ dq @ statvar_name @ dq @ nl"

definition HAZARD_MCF_FORMAT_BASE :: "string \<Rightarrow> string \<Rightarrow> string \<Rightarrow> string \<Rightarrow> string" where
  "HAZARD_MCF_FORMAT_BASE node_dcid haz_type m_prop statvar_name =
     ''Node: dcid:'' @ node_dcid @ nl @
     ''typeOf: dcs:StatisticalVariable'' @ nl @
     ''populationType: dcs:NaturalHazardImpact'' @ nl @
     ''statType: dcs:measuredValue'' @ nl @
     ''naturalHazardType: dcs:'' @ haz_type @ nl @
     ''measuredProperty: dcs:'' @ m_prop @ nl @
     ''name: '' @ dq @ statvar_name @ dq @ nl"

definition TMCF_FORMAT :: "nat \<Rightarrow> string \<Rightarrow> string \<Rightarrow> string \<Rightarrow> string" where
  "TMCF_FORMAT index statvar_dcid obs_date fname =
     nl @ ''Node: E:FEMA_NRI->E'' @ str_nat index @ nl @
     ''typeOf: dcs:StatVarObservation'' @ nl @
     ''variableMeasured: dcs:'' @ statvar_dcid @ nl @
     ''observationAbout: C:FEMA_NRI_Counties->DCID_GeoID'' @ nl @
     ''observationDate: '' @ dq @ obs_date @ dq @ nl @
     ''value: C:FEMA_NRI_Counties->'' @ fname @ nl"

definition tmcf_from_row :: "row \<Rightarrow> nat \<Rightarrow> string \<Rightarrow> string \<Rightarrow> string" where
  "tmcf_from_row r index statvar_dcid u =
     (let tmcf = TMCF_FORMAT index statvar_dcid (version_iso8601 r) (field_name r)
      in if u \<noteq> [] then tmcf @ ''unit: '' @ u @ nl else tmcf)"

definition composite_dcid :: "properties \<Rightarrow> error + string" where
  "composite_dcid p =
     (case capitalize_first (measured_property p) of Inl e \<Rightarrow> Inl e
      | Inr cap \<Rightarrow>
          Inr (if measured_property p = ''expectedLoss''
               then ''Annual_'' @ cap @ ''_NaturalHazardImpact''
               else cap @ ''_NaturalHazardImpact''))"

definition format_composite_field_properties_to_schema ::
    "properties \<Rightarrow> error + string \<times> string" where
  "format_composite_field_properties_to_schema p =
     (case composite_dcid p of Inl e \<Rightarrow> Inl e
      | Inr dcid \<Rightarrow>
         (let statvar_name = format_human_readable_name_from_properties p True;
              formatted = COMPOSITE_MCF_FORMAT dcid (measured_property p) statvar_name
          in Inr (if measured_property p = ''expectedLoss''
                  then formatted @ ''measurementQualifier: dcid:Annual'' @ nl
                  else formatted, dcid)))"

text \<open>The list comprehension \<^verbatim>\<open>[capitalize_first(element) for element in dcid_list]\<close>.\<close>

fun capitalize_each :: "string list \<Rightarrow> error + string list" where
  "capitalize_each [] = Inr []"
| "capitalize_each (x # xs) =
     (case capitalize_first x of Inl e \<Rightarrow> Inl e
      | Inr y \<Rightarrow> (case capitalize_each xs of Inl e \<Rightarrow> Inl e | Inr ys \<Rightarrow> Inr (y # ys)))"

definition ind_hazard_dcid :: "properties \<Rightarrow> error + string" where
  "ind_hazard_dcid p =
     (let dcid_list = [measurement_qualifier p, measured_property p, ''NaturalHazardImpact'',
                       hazard_type p, impacted_thing p];
          dcid_list = filter (\<lambda>element. element \<noteq> []) dcid_list
      in case capitalize_each dcid_list of Inl e \<Rightarrow> Inl e
         | Inr dcid_list \<Rightarrow> Inr (py_join ''_'' dcid_list))"

definition format_ind_hazard_field_properties_to_schema ::
    "properties \<Rightarrow> error + string \<times> string" where
  "format_ind_hazard_field_properties_to_schema p =
     (case ind_hazard_dcid p of Inl e \<Rightarrow> Inl e
      | Inr dcid \<Rightarrow>
         (let statvar_name = format_human_readable_name_from_properties p False;
              formatted = HAZARD_MCF_FORMAT_BASE dcid (hazard_type p)
                            (drop_spaces (measured_property p)) statvar_name;
              formatted = (if impacted_thing p \<noteq> []
                           then formatted @ ''impactedThing: dcid:'' @ impacted_thing p @ nl
                           else formatted);
              formatted = (if measurement_qualifier p \<noteq> []
                           then formatted @ ''measurementQualifier: dcid:'' @ measurement_qualifier p @ nl
                           else formatted)
          in Inr (formatted, dcid)))"

definition schema_and_tmcf_from_properties :: "properties \<Rightarrow> nat \<Rightarrow> error + string \<times> string" where
  "schema_and_tmcf_from_properties p index =
     (case (if is_composite p then format_composite_field_properties_to_schema p
            else format_ind_hazard_field_properties_to_schema p)
      of Inl e \<Rightarrow> Inl e
       | Inr (schema, statvar_dcid) \<Rightarrow>
           Inr (schema, tmcf_from_row (source_row p) index statvar_dcid (unit p)))"

subsection \<open>The pipeline\<close>

definition field_alias_strings_to_skip :: "flags \<Rightarrow> string list" where
  "field_alias_strings_to_skip fl =
     (if FLAG_SKIP_EAL_COMPONENTS fl then EAL_COMPONENTS else []) @
     (if FLAG_SKIP_IMPACTED_THING_COMPONENTS fl then IMPACTED_THING_COMPONENTS else []) @
     (if FLAG_SKIP_NON_SCORE_RELATIVE_MEASURES fl then NON_SCORE_RELATIVE_MEASURES else []) @
     (if FLAG_SKIP_RAW_VALUES fl then RAW_VALUE_COMPONENTS else [])"

definition should_skip_component :: "flags \<Rightarrow> row \<Rightarrow> bool" where
  "should_skip_component fl r =
     list_ex (\<lambda>eal_comp. sublist eal_comp (field_alias r)) (field_alias_strings_to_skip fl)"

text \<open>The first loop: a skipped row is passed over, the others are extracted in order.\<close>

fun extract_loop :: "flags \<Rightarrow> row list \<Rightarrow> error + properties list" where
  "extract_loop fl [] = Inr []"
| "extract_loop fl (r # rs) =
     (if should_skip_component fl r then extract_loop fl rs
      else (case extract_properties_from_row r of Inl e \<Rightarrow> Inl e
            | Inr p \<Rightarrow> (case extract_loop fl rs of Inl e \<Rightarrow> Inl e
                        | Inr ps \<Rightarrow> Inr (p # ps))))"

text \<open>
  The second loop, from position \<open>index\<close> on: the schemas, the templates and the column
  names, one of each per extracted record.
\<close>

fun format_loop :: "nat \<Rightarrow> properties list \<Rightarrow> error + string list \<times> string list \<times> string list" where
  "format_loop index [] = Inr ([], [], [])"
| "format_loop index (p # ps) =
     (case schema_and_tmcf_from_properties p index of Inl e \<Rightarrow> Inl e
      | Inr (statvar_mcf, statobs_tmcf) \<Rightarrow>
          (case format_loop (Suc index) ps of Inl e \<Rightarrow> Inl e
           | Inr (schemas, tmcfs, csv_columns) \<Rightarrow>
               Inr (statvar_mcf # schemas, statobs_tmcf # tmcfs,
                    field_name (source_row p) # csv_columns)))"

text \<open>
  \<^verbatim>\<open>generate_schema_and_tmcf_from_file\<close> on the rows of the data dictionary: the three
  pruned sequences that the function then serialises and writes.
\<close>

definition generate_schema_and_tmcf_from_file ::
    "flags \<Rightarrow> row list \<Rightarrow> error + string list \<times> string list \<times> string list" where
  "generate_schema_and_tmcf_from_file fl dd0 =
     (let dd = filter (\<lambda>r. field_name r \<notin> set IGNORED_FIELDS) dd0
      in case extract_loop fl dd of Inl e \<Rightarrow> Inl e
         | Inr extracted_properties \<Rightarrow>
             (case format_loop 0 extracted_properties of Inl e \<Rightarrow> Inl e
              | Inr (schemas, tmcfs, csv_columns) \<Rightarrow>
                  Inr (prune_list_dupes schemas, prune_list_dupes tmcfs,
                       prune_list_dupes csv_columns)))"

subsection \<open>Notions used in the statements\<close>

text \<open>
  The impacted thing of an individual-hazard row before the \<^verbatim>\<open>Population\<close> rule: the
  third segment without its spaces when the alias has more than one dash, with
  \<^verbatim>\<open>Total\<close> read as none.
\<close>

definition raw_impacted_thing :: "row \<Rightarrow> string" where
  "raw_impacted_thing r =
     (if py_count CHR ''-'' (field_alias r) > 1
      then (if drop_spaces (py_split '' - '' (field_alias r) ! 2) = ''Total'' then ''''
            else drop_spaces (py_split '' - '' (field_alias r) ! 2))
      else '''')"

text \<open>
  The text that the measured property of a row is read from: segment 0 on the composite
  path; on the individual-hazard path segment 1, or what precedes the last space-delimited
  word of its alias when that alias contains \<open>Score\<close> or \<open>Rating\<close>.
\<close>

definition measured_property_text :: "row \<Rightarrow> string" where
  "measured_property_text r =
     (let segs = py_split '' - '' (field_alias r);
          a = apply_datacommon_alias (segs ! 1)
      in if is_composite_row r then segs ! 0
         else if sublist ''Score'' a \<or> sublist ''Rating'' a
           then take (length a - length (last (py_split '' '' a))) a
         else segs ! 1)"

text \<open>A leading underscore, a trailing underscore or two consecutive underscores.\<close>

definition stray_underscores :: "string \<Rightarrow> bool" where
  "stray_underscores s = (prefix ''_'' s \<or> suffix ''_'' s \<or> sublist ''__'' s)"

text \<open>A string whose only whitespace characters are spaces.\<close>

definition plain_spaces :: "string \<Rightarrow> bool" where
  "plain_spaces s = (\<forall>c\<in>set s. isspace c \<longrightarrow> c = CHR '' '')"

subsection \<open>The display name as the specification words it\<close>

text \<open>A space inserted before every internal capital letter.\<close>

definition spec_space_capitals :: "string \<Rightarrow> string" where
  "spec_space_capitals s =
     (case s of [] \<Rightarrow> []
      | c # cs \<Rightarrow> c # concat (map (\<lambda>d. if isupper d then [CHR '' '', d] else [d]) cs))"

text \<open>The first word dropped, the words being separated by single spaces.\<close>

definition spec_drop_first_word :: "string \<Rightarrow> string" where
  "spec_drop_first_word s = drop (Suc (length (takeWhile (\<lambda>c. c \<noteq> CHR '' '') s))) s"

text \<open>The \<open>Event\<close> suffix removed.\<close>

definition spec_remove_event :: "string \<Rightarrow> string" where
  "spec_remove_event h = (if suffix ''Event'' h then take (length h - length ''Event'') h else h)"

definition spec_display_name :: "properties \<Rightarrow> bool \<Rightarrow> string" where
  "spec_display_name p is_comp =
     (if measured_property p = ''expectedLoss''
        then ''Annual Expected Loss from Natural Hazard Impact''
      else if measured_property p = ''femaNaturalHazardRiskIndex''
        then ''FEMA National Risk Index for Natural Hazard Impact''
      else ''FEMA '' @ spec_drop_first_word (spec_space_capitals (measured_property p))
             @ '' to Natural Hazard Impact'')
     @ (if is_comp then []
        else '': '' @ spec_space_capitals (spec_remove_event (hazard_type p)))"

section \<open>Deduplication\<close>



lemma distinct_prune_loop: "distinct k \<Longrightarrow> distinct (prune_loop k l)"
  by (induction l arbitrary: k) auto

lemma prune_loop_distinct_id: "distinct (k @ l) \<Longrightarrow> prune_loop k l = k @ l"
  by (induction l arbitrary: k) auto

lemma prune_list_dupes_distinct_id: "distinct l \<Longrightarrow> prune_list_dupes l = l"
  using prune_loop_distinct_id [of "[]" l] by (simp add: prune_list_dupes_def)

lemma distinct_prune_list_dupes: "distinct (prune_list_dupes l)"
  by (simp add: prune_list_dupes_def distinct_prune_loop)


text \<open>
  Claim C7. Deduplication is idempotent: pruning a pruned list gives the pruned list again,
  for every list.
\<close>

theorem prune_list_dupes_idempotent:
  "prune_list_dupes (prune_list_dupes l) = prune_list_dupes l"
  by (rule prune_list_dupes_distinct_id) (rule distinct_prune_list_dupes)

section \<open>Property extraction\<close>

lemma py_split_not_Nil [simp]: "py_split sep s \<noteq> []"
  by (induction sep s rule: py_split.induct) (auto split: list.splits)

lemma py_split_length_pos [simp]: "0 < length (py_split sep s)"
  by simp

lemma normalize_unit_fst [simp]: "fst (normalize_unit_for_measured_property mp u) = mp"
  by (simp add: normalize_unit_for_measured_property_def)

lemma normalize_unit_snd_range:
  "snd (normalize_unit_for_measured_property mp u) \<in> {''FemaNationalRiskScore'', ''dcid:USDollar'', ''''}"
  by (simp add: normalize_unit_for_measured_property_def)

lemma extract_ind_hazard_Inr:
  assumes "extract_properties_from_ind_hazard_row r = Inr p"
  defines "segs \<equiv> py_split '' - '' (field_alias r)"
  defines "su \<equiv> split_score_unit (apply_datacommon_alias (segs ! 1))"
  shows "1 < length segs"
    and "py_count CHR ''-'' (field_alias r) > 1 \<Longrightarrow> 2 < length segs"
    and "p = (\<lparr>hazard_type = (if drop_spaces (segs ! 0) @ ''Event'' = ''CoastalFloodingEvent''
                              then ''CoastalFloodEvent'' else drop_spaces (segs ! 0) @ ''Event''),
              measured_property = drop_spaces (fst su),
              measurement_qualifier = (if fst su = ''expectedLoss'' then ''Annual'' else ''''),
              impacted_thing = (if sublist ''Population'' (raw_impacted_thing r) then ''Person''
                                else raw_impacted_thing r),
              unit = snd (normalize_unit_for_measured_property (fst su) (snd su)),
              is_composite = False, source_row = r\<rparr>)" (is "p = ?P")
proof -
  show l1: "1 < length segs"
  proof (rule ccontr)
    assume "\<not> 1 < length segs"
    then have "extract_properties_from_ind_hazard_row r = Inl IndexError"
      by (simp add: extract_properties_from_ind_hazard_row_def
            get_nth_dash_from_field_alias_def segs_def Let_def)
    with assms(1) show False by simp
  qed
  have l2: "2 < length segs" if "py_count CHR ''-'' (field_alias r) > 1"
  proof (rule ccontr)
    assume "\<not> 2 < length segs"
    with that l1 have "extract_properties_from_ind_hazard_row r = Inl IndexError"
      by (simp add: extract_properties_from_ind_hazard_row_def
            get_nth_dash_from_field_alias_def segs_def Let_def split_beta)
    with assms(1) show False by simp
  qed
  then show "py_count CHR ''-'' (field_alias r) > 1 \<Longrightarrow> 2 < length segs" .
  show "p = ?P"
  proof (cases "py_count CHR ''-'' (field_alias r) > 1")
    case True
    with l1 l2 have "extract_properties_from_ind_hazard_row r = Inr ?P"
      unfolding segs_def su_def raw_impacted_thing_def
      by (simp add: extract_properties_from_ind_hazard_row_def
            get_nth_dash_from_field_alias_def Let_def split_beta)
    with assms(1) show ?thesis by simp
  next
    case False
    with l1 have "extract_properties_from_ind_hazard_row r = Inr ?P"
      unfolding segs_def su_def raw_impacted_thing_def
      by (simp add: extract_properties_from_ind_hazard_row_def
            get_nth_dash_from_field_alias_def Let_def split_beta)
    with assms(1) show ?thesis by simp
  qed
qed

lemma extract_composite_Inr:
  assumes "extract_properties_from_composite_row r = Inr p"
  defines "segs \<equiv> py_split '' - '' (field_alias r)"
  shows "1 < length segs"
    and "p = (\<lparr>hazard_type = '''',
              measured_property = apply_datacommon_alias (drop_spaces (segs ! 0)),
              measurement_qualifier = '''', impacted_thing = '''',
              unit = snd (normalize_unit_for_measured_property
                        (apply_datacommon_alias (drop_spaces (segs ! 0)))
                        (apply_datacommon_alias (drop_spaces (segs ! 1)))),
              is_composite = True, source_row = r\<rparr>)" (is "p = ?P")
proof -
  show l1: "1 < length segs"
  proof (rule ccontr)
    assume "\<not> 1 < length segs"
    then have "extract_properties_from_composite_row r = Inl IndexError"
      by (simp add: extract_properties_from_composite_row_def
            get_nth_dash_from_field_alias_def segs_def Let_def)
    with assms(1) show False by simp
  qed
  then have "extract_properties_from_composite_row r = Inr ?P"
    unfolding segs_def
    by (simp add: extract_properties_from_composite_row_def
            get_nth_dash_from_field_alias_def Let_def split_beta)
  with assms(1) show "p = ?P" by simp
qed



lemma py_split_no_separator: "\<not> sublist sep s \<Longrightarrow> py_split sep s = [s]"
proof (induction s)
  case Nil
  show ?case by simp
next
  case (Cons c cs)
  from Cons.prems have "\<not> prefix sep (c # cs)" and "\<not> sublist sep cs"
    by (auto simp: sublist_Cons_right)
  with Cons.IH show ?case by simp
qed

lemma extract_no_separator:
  assumes "\<not> sublist '' - '' (field_alias r)"
  shows "extract_properties_from_composite_row r = Inl IndexError"
    and "extract_properties_from_ind_hazard_row r = Inl IndexError"
    and "extract_properties_from_row r = Inl IndexError"
  using py_split_no_separator [OF assms]
  by (simp_all add: extract_properties_from_row_def extract_properties_from_composite_row_def
        extract_properties_from_ind_hazard_row_def get_nth_dash_from_field_alias_def Let_def)

lemma extract_properties_error: "extract_properties_from_row r = Inl e \<Longrightarrow> e = IndexError"
  by (cases e) simp

lemma extract_loop_error:
  assumes "r \<in> set dd" "\<not> should_skip_component fl r"
    "extract_properties_from_row r = Inl IndexError"
  shows "extract_loop fl dd = Inl IndexError"
  using assms(1)
proof (induction dd)
  case Nil
  then show ?case by simp
next
  case (Cons a dd)
  show ?case
  proof (cases "a = r")
    case True
    with assms(2,3) show ?thesis by simp
  next
    case False
    with Cons have "extract_loop fl dd = Inl IndexError" by simp
    then show ?thesis
      by (cases "extract_properties_from_row a") (auto dest: extract_properties_error[of a] simp: error.exhaust)
  qed
qed

text \<open>
  Claim C10. Extraction is partial: both extractors read segment 1 of the split alias
  unconditionally, so a row whose Field Alias has no \<open>" - "\<close> separator makes each of them
  raise \<^verbatim>\<open>IndexError\<close>; and the error reaches the public interface, since the pipeline
  raises it for every input table that holds such a row which is neither ignored nor skipped.
\<close>

theorem extraction_raises_without_separator:
  assumes "\<not> sublist '' - '' (field_alias r)"
  shows "extract_properties_from_composite_row r = Inl IndexError
       \<and> extract_properties_from_ind_hazard_row r = Inl IndexError
       \<and> extract_properties_from_row r = Inl IndexError
       \<and> (r \<in> set dd \<and> field_name r \<notin> set IGNORED_FIELDS \<and> \<not> should_skip_component fl r
            \<longrightarrow> generate_schema_and_tmcf_from_file fl dd = Inl IndexError)"
proof -
  have "generate_schema_and_tmcf_from_file fl dd = Inl IndexError"
    if "r \<in> set dd" "field_name r \<notin> set IGNORED_FIELDS" "\<not> should_skip_component fl r"
  proof -
    from that have "r \<in> set (filter (\<lambda>r. field_name r \<notin> set IGNORED_FIELDS) dd)" by simp
    then have "extract_loop fl (filter (\<lambda>r. field_name r \<notin> set IGNORED_FIELDS) dd) = Inl IndexError"
      using that(3) extract_no_separator(3) [OF assms] by (rule extract_loop_error)
    then show ?thesis by (simp add: generate_schema_and_tmcf_from_file_def)
  qed
  with extract_no_separator [OF assms] show ?thesis by simp
qed

lemmas skip_defs =
  should_skip_component_def field_alias_strings_to_skip_def module_flags_def
  EAL_COMPONENTS_def IMPACTED_THING_COMPONENTS_def NON_SCORE_RELATIVE_MEASURES_def
  RAW_VALUE_COMPONENTS_def sublist_code

theorem extraction_raises_without_separator_witness:
  "\<not> sublist '' - '' ''Avalanche''
   \<and> \<not> should_skip_component module_flags
         \<lparr>field_name = ''AVLN_X'', field_alias = ''Avalanche'', relevant_layer = ''Avalanche'',
          version_iso8601 = ''2021-11''\<rparr>
   \<and> generate_schema_and_tmcf_from_file module_flags
       [\<lparr>field_name = ''AVLN_X'', field_alias = ''Avalanche'', relevant_layer = ''Avalanche'',
         version_iso8601 = ''2021-11''\<rparr>] = Inl IndexError"
  using extraction_raises_without_separator
    [of "\<lparr>field_name = ''AVLN_X'', field_alias = ''Avalanche'', relevant_layer = ''Avalanche'',
          version_iso8601 = ''2021-11''\<rparr>"
        "[\<lparr>field_name = ''AVLN_X'', field_alias = ''Avalanche'', relevant_layer = ''Avalanche'',
          version_iso8601 = ''2021-11''\<rparr>]" module_flags]
  by (simp add: skip_defs IGNORED_FIELDS_def)

lemmas extraction_defs =
  extract_properties_from_row_def extract_properties_from_ind_hazard_row_def
  extract_properties_from_composite_row_def get_nth_dash_from_field_alias_def
  split_score_unit_def cut_suffix_len_def normalize_unit_for_measured_property_def
  apply_datacommon_alias_def drop_spaces_def strip_def isspace_def whitespace_def
  DATACOMMONS_ALIASES_def py_count_def sublist_code
  is_composite_row_def COMPOSITE_ROW_LAYERS_def

lemmas capitalize_defs =
  capitalize_first_def upper_def lower_letters_def upper_letters_def

lemma format_ind_hazard_dcid:
  "map_sum id snd (format_ind_hazard_field_properties_to_schema p) = ind_hazard_dcid p"
  by (simp add: format_ind_hazard_field_properties_to_schema_def Let_def split: sum.splits)

lemma format_composite_dcid:
  "map_sum id snd (format_composite_field_properties_to_schema p) = composite_dcid p"
  by (simp add: format_composite_field_properties_to_schema_def Let_def split: sum.splits)

text \<open>
  Claim C1. A row with Field Alias \<open>Avalanche - Expected Annual Loss Score\<close> whose Relevant
  Layer is not in the composite set is extracted to hazard type \<open>AvalancheEvent\<close>, measured
  property \<open>expectedLoss\<close>, unit \<open>FemaNationalRiskScore\<close>, qualifier \<open>Annual\<close> and no impacted
  thing, and the identifier built from these properties is
  \<open>Annual_ExpectedLoss_NaturalHazardImpact_AvalancheEvent\<close>.
\<close>

theorem avalanche_expected_loss_score:
  assumes "field_alias r = ''Avalanche - Expected Annual Loss Score''"
    and "\<not> is_composite_row r"
  shows "extract_properties_from_row r =
           Inr \<lparr>hazard_type = ''AvalancheEvent'', measured_property = ''expectedLoss'',
                measurement_qualifier = ''Annual'', impacted_thing = '''',
                unit = ''FemaNationalRiskScore'', is_composite = False, source_row = r\<rparr>
       \<and> map_sum id snd (format_ind_hazard_field_properties_to_schema
           \<lparr>hazard_type = ''AvalancheEvent'', measured_property = ''expectedLoss'',
            measurement_qualifier = ''Annual'', impacted_thing = '''',
            unit = ''FemaNationalRiskScore'', is_composite = False, source_row = r\<rparr>)
         = Inr ''Annual_ExpectedLoss_NaturalHazardImpact_AvalancheEvent''"
proof -
  have "py_split '' - '' (field_alias r) = [''Avalanche'', ''Expected Annual Loss Score'']"
    by (simp add: assms(1))
  then have "extract_properties_from_ind_hazard_row r =
           Inr \<lparr>hazard_type = ''AvalancheEvent'', measured_property = ''expectedLoss'',
                measurement_qualifier = ''Annual'', impacted_thing = '''',
                unit = ''FemaNationalRiskScore'', is_composite = False, source_row = r\<rparr>"
    by (simp add: extract_properties_from_ind_hazard_row_def get_nth_dash_from_field_alias_def
          split_score_unit_def cut_suffix_len_def normalize_unit_for_measured_property_def
          apply_datacommon_alias_def drop_spaces_def strip_def isspace_def whitespace_def
          DATACOMMONS_ALIASES_def py_count_def sublist_code assms(1))
  moreover have "ind_hazard_dcid
           \<lparr>hazard_type = ''AvalancheEvent'', measured_property = ''expectedLoss'',
            measurement_qualifier = ''Annual'', impacted_thing = '''',
            unit = ''FemaNationalRiskScore'', is_composite = False, source_row = r\<rparr>
         = Inr ''Annual_ExpectedLoss_NaturalHazardImpact_AvalancheEvent''"
    by (simp add: ind_hazard_dcid_def capitalize_defs)
  ultimately show ?thesis
    using assms(2) by (simp add: extract_properties_from_row_def format_ind_hazard_dcid)
qed

theorem avalanche_expected_loss_score_witness:
  "\<not> is_composite_row \<lparr>field_name = ''AVLN_EALS'',
        field_alias = ''Avalanche - Expected Annual Loss Score'',
        relevant_layer = ''Avalanche'', version_iso8601 = ''2021-11''\<rparr>
   \<and> map_sum id measured_property (extract_properties_from_row \<lparr>field_name = ''AVLN_EALS'',
        field_alias = ''Avalanche - Expected Annual Loss Score'',
        relevant_layer = ''Avalanche'', version_iso8601 = ''2021-11''\<rparr>) = Inr ''expectedLoss''"
  using avalanche_expected_loss_score [of "\<lparr>field_name = ''AVLN_EALS'',
        field_alias = ''Avalanche - Expected Annual Loss Score'',
        relevant_layer = ''Avalanche'', version_iso8601 = ''2021-11''\<rparr>"]
  by (simp add: is_composite_row_def COMPOSITE_ROW_LAYERS_def)

text \<open>
  Claim C2, amended. For every row that is extracted, the unit of the record is the
  risk-score token, the currency token or the empty string. When the measured property is
  \<open>expectedLoss\<close> at the moment the unit is normalised, the unit is never empty: normalisation
  keeps the risk-score token and turns every other incoming unit into the currency token.
  On the composite path that property is the measured property of the record; on the
  individual-hazard path it is the property before its spaces are stripped, and it is
  \<open>expectedLoss\<close> exactly when the qualifier of the record is \<open>Annual\<close>.
\<close>

theorem unit_vocabulary_closed:
  "(extract_properties_from_row r = Inr p \<longrightarrow>
      unit p \<in> {''FemaNationalRiskScore'', ''dcid:USDollar'', ''''}
      \<and> (is_composite p \<and> measured_property p = ''expectedLoss''
           \<or> measurement_qualifier p = ''Annual''
          \<longrightarrow> unit p \<in> {''FemaNationalRiskScore'', ''dcid:USDollar''}))
   \<and> normalize_unit_for_measured_property ''expectedLoss'' u =
       (''expectedLoss'',
        if u = ''FemaNationalRiskScore'' then ''FemaNationalRiskScore'' else ''dcid:USDollar'')
   \<and> snd (normalize_unit_for_measured_property ''expectedLoss'' u) \<noteq> ''''"
proof -
  have loss: "snd (normalize_unit_for_measured_property ''expectedLoss'' v)
                \<in> {''FemaNationalRiskScore'', ''dcid:USDollar''}" for v
    by (simp add: normalize_unit_for_measured_property_def)
  have "unit p \<in> {''FemaNationalRiskScore'', ''dcid:USDollar'', ''''}
      \<and> (is_composite p \<and> measured_property p = ''expectedLoss''
           \<or> measurement_qualifier p = ''Annual''
          \<longrightarrow> unit p \<in> {''FemaNationalRiskScore'', ''dcid:USDollar''})"
    if "extract_properties_from_row r = Inr p"
  proof (cases "is_composite_row r")
    case True
    with that have ex: "extract_properties_from_composite_row r = Inr p"
      by (simp add: extract_properties_from_row_def)
    let ?mp = "apply_datacommon_alias (drop_spaces (py_split '' - '' (field_alias r) ! 0))"
    let ?u = "apply_datacommon_alias (drop_spaces (py_split '' - '' (field_alias r) ! 1))"
    from extract_composite_Inr(2) [OF ex]
    have f: "unit p = snd (normalize_unit_for_measured_property ?mp ?u)"
      "measured_property p = ?mp" "measurement_qualifier p = ''''"
      by simp_all
    have "unit p \<in> {''FemaNationalRiskScore'', ''dcid:USDollar''}"
      if "measured_property p = ''expectedLoss''"
      using that f(1,2) loss [of ?u] by simp
    with f(3) normalize_unit_snd_range [of ?mp ?u] f(1) show ?thesis by simp
  next
    case False
    with that have ex: "extract_properties_from_ind_hazard_row r = Inr p"
      by (simp add: extract_properties_from_row_def)
    let ?su = "split_score_unit (apply_datacommon_alias (py_split '' - '' (field_alias r) ! 1))"
    from extract_ind_hazard_Inr(3) [OF ex]
    have f: "unit p = snd (normalize_unit_for_measured_property (fst ?su) (snd ?su))"
      "measurement_qualifier p = (if fst ?su = ''expectedLoss'' then ''Annual'' else '''')"
      "is_composite p = False"
      by simp_all
    have "unit p \<in> {''FemaNationalRiskScore'', ''dcid:USDollar''}"
      if "measurement_qualifier p = ''Annual''"
    proof -
      from that f(2) have "fst ?su = ''expectedLoss''" by (simp split: if_splits)
      with f(1) loss [of "snd ?su"] show ?thesis by simp
    qed
    with f(3) normalize_unit_snd_range [of "fst ?su" "snd ?su"] f(1) show ?thesis by simp
  qed
  then show ?thesis
    by (simp add: normalize_unit_for_measured_property_def)
qed

theorem unit_vocabulary_closed_witness:
  "extract_properties_from_row \<lparr>field_name = ''CFLD_EALT'',
        field_alias = ''Coastal Flooding - Expected Annual Loss - Total'',
        relevant_layer = ''Coastal Flooding'', version_iso8601 = ''2021-11''\<rparr>
     = Inr \<lparr>hazard_type = ''CoastalFloodEvent'', measured_property = ''expectedLoss'',
            measurement_qualifier = ''Annual'', impacted_thing = '''',
            unit = ''dcid:USDollar'', is_composite = False,
            source_row = \<lparr>field_name = ''CFLD_EALT'',
              field_alias = ''Coastal Flooding - Expected Annual Loss - Total'',
              relevant_layer = ''Coastal Flooding'', version_iso8601 = ''2021-11''\<rparr>\<rparr>
   \<and> ''dcid:USDollar'' \<in> {''FemaNationalRiskScore'', ''dcid:USDollar''}"
  using unit_vocabulary_closed [of "\<lparr>field_name = ''CFLD_EALT'',
        field_alias = ''Coastal Flooding - Expected Annual Loss - Total'',
        relevant_layer = ''Coastal Flooding'', version_iso8601 = ''2021-11''\<rparr>"
      "\<lparr>hazard_type = ''CoastalFloodEvent'', measured_property = ''expectedLoss'',
            measurement_qualifier = ''Annual'', impacted_thing = '''',
            unit = ''dcid:USDollar'', is_composite = False,
            source_row = \<lparr>field_name = ''CFLD_EALT'',
              field_alias = ''Coastal Flooding - Expected Annual Loss - Total'',
              relevant_layer = ''Coastal Flooding'', version_iso8601 = ''2021-11''\<rparr>\<rparr>"]
  by (simp add: extraction_defs)

text \<open>
  The claim as the specification states it, read on the record, fails on the retained
  individual-hazard row \<open>Avalanche - expected Loss\<close>: the unit is normalised for the property
  \<open>expected Loss\<close>, which is not the token, and the spaces are stripped afterwards.
\<close>

theorem unit_empty_for_expected_loss_counterexample:
  "field_name \<lparr>field_name = ''AVLN_EL'', field_alias = ''Avalanche - expected Loss'',
        relevant_layer = ''Avalanche'', version_iso8601 = ''2021-11''\<rparr> \<notin> set IGNORED_FIELDS
   \<and> \<not> should_skip_component module_flags
        \<lparr>field_name = ''AVLN_EL'', field_alias = ''Avalanche - expected Loss'',
         relevant_layer = ''Avalanche'', version_iso8601 = ''2021-11''\<rparr>
   \<and> extract_properties_from_row
        \<lparr>field_name = ''AVLN_EL'', field_alias = ''Avalanche - expected Loss'',
         relevant_layer = ''Avalanche'', version_iso8601 = ''2021-11''\<rparr>
     = Inr \<lparr>hazard_type = ''AvalancheEvent'', measured_property = ''expectedLoss'',
            measurement_qualifier = '''', impacted_thing = '''',
            unit = '''', is_composite = False,
            source_row = \<lparr>field_name = ''AVLN_EL'', field_alias = ''Avalanche - expected Loss'',
              relevant_layer = ''Avalanche'', version_iso8601 = ''2021-11''\<rparr>\<rparr>"
  by (simp add: extraction_defs skip_defs IGNORED_FIELDS_def)

lemma drop_spaces_Total: "s = ''Total'' \<Longrightarrow> drop_spaces s = ''Total''"
  by (simp add: drop_spaces_def)

text \<open>
  Claim C3. For every individual-hazard row that is extracted, a non-empty impacted thing
  means that the alias has a third \<open>" - "\<close> segment and that this segment is not \<open>Total\<close>;
  and when the alias contains exactly one dash character the impacted thing is empty.
\<close>

theorem impacted_thing_needs_third_segment:
  assumes "\<not> is_composite_row r" and "extract_properties_from_row r = Inr p"
  shows "(impacted_thing p \<noteq> [] \<longrightarrow>
            2 < length (py_split '' - '' (field_alias r))
          \<and> py_split '' - '' (field_alias r) ! 2 \<noteq> ''Total'')
       \<and> (py_count CHR ''-'' (field_alias r) = 1 \<longrightarrow> impacted_thing p = [])"
proof -
  from assms have ex: "extract_properties_from_ind_hazard_row r = Inr p"
    by (simp add: extract_properties_from_row_def)
  have it: "impacted_thing p = (if sublist ''Population'' (raw_impacted_thing r) then ''Person''
                                else raw_impacted_thing r)"
    using extract_ind_hazard_Inr(3) [OF ex] by simp
  have one: "impacted_thing p = []" if "py_count CHR ''-'' (field_alias r) = 1"
    using that it by (simp add: raw_impacted_thing_def)
  have three: "2 < length (py_split '' - '' (field_alias r))
          \<and> py_split '' - '' (field_alias r) ! 2 \<noteq> ''Total''" if "impacted_thing p \<noteq> []"
  proof -
    from that it have raw: "raw_impacted_thing r \<noteq> []"
      by (auto split: if_splits)
    then have many: "py_count CHR ''-'' (field_alias r) > 1"
      by (auto simp: raw_impacted_thing_def split: if_splits)
    with raw have "drop_spaces (py_split '' - '' (field_alias r) ! 2) \<noteq> ''Total''"
      by (auto simp: raw_impacted_thing_def split: if_splits)
    then have "py_split '' - '' (field_alias r) ! 2 \<noteq> ''Total''"
      using drop_spaces_Total by blast
    with extract_ind_hazard_Inr(2) [OF ex many] show ?thesis by simp
  qed
  from one three show ?thesis by blast
qed

theorem impacted_thing_needs_third_segment_witness:
  "\<not> is_composite_row \<lparr>field_name = ''AVLN_EALL'',
        field_alias = ''Avalanche - Expected Annual Loss - Livestock'',
        relevant_layer = ''Avalanche'', version_iso8601 = ''2021-11''\<rparr>
   \<and> map_sum id impacted_thing (extract_properties_from_row \<lparr>field_name = ''AVLN_EALL'',
        field_alias = ''Avalanche - Expected Annual Loss - Livestock'',
        relevant_layer = ''Avalanche'', version_iso8601 = ''2021-11''\<rparr>) = Inr ''Livestock''
   \<and> py_split '' - '' ''Avalanche - Expected Annual Loss - Livestock'' ! 2 \<noteq> ''Total''
   \<and> \<not> is_composite_row \<lparr>field_name = ''AVLN_EALS'',
        field_alias = ''Avalanche - Expected Annual Loss Score'',
        relevant_layer = ''Avalanche'', version_iso8601 = ''2021-11''\<rparr>
   \<and> py_count CHR ''-'' ''Avalanche - Expected Annual Loss Score'' = 1
   \<and> map_sum id impacted_thing (extract_properties_from_row \<lparr>field_name = ''AVLN_EALS'',
        field_alias = ''Avalanche - Expected Annual Loss Score'',
        relevant_layer = ''Avalanche'', version_iso8601 = ''2021-11''\<rparr>) = Inr ''''"
  using impacted_thing_needs_third_segment [of "\<lparr>field_name = ''AVLN_EALL'',
        field_alias = ''Avalanche - Expected Annual Loss - Livestock'',
        relevant_layer = ''Avalanche'', version_iso8601 = ''2021-11''\<rparr>"
      "\<lparr>hazard_type = ''AvalancheEvent'', measured_property = ''expectedLoss'',
        measurement_qualifier = ''Annual'', impacted_thing = ''Livestock'',
        unit = ''dcid:USDollar'', is_composite = False,
        source_row = \<lparr>field_name = ''AVLN_EALL'',
        field_alias = ''Avalanche - Expected Annual Loss - Livestock'',
        relevant_layer = ''Avalanche'', version_iso8601 = ''2021-11''\<rparr>\<rparr>"]
    impacted_thing_needs_third_segment [of "\<lparr>field_name = ''AVLN_EALS'',
        field_alias = ''Avalanche - Expected Annual Loss Score'',
        relevant_layer = ''Avalanche'', version_iso8601 = ''2021-11''\<rparr>"
      "\<lparr>hazard_type = ''AvalancheEvent'', measured_property = ''expectedLoss'',
        measurement_qualifier = ''Annual'', impacted_thing = '''',
        unit = ''FemaNationalRiskScore'', is_composite = False,
        source_row = \<lparr>field_name = ''AVLN_EALS'',
        field_alias = ''Avalanche - Expected Annual Loss Score'',
        relevant_layer = ''Avalanche'', version_iso8601 = ''2021-11''\<rparr>\<rparr>"]
  by (simp add: extraction_defs)

lemmas skip_only_defs =
  should_skip_component_def field_alias_strings_to_skip_def
  EAL_COMPONENTS_def IMPACTED_THING_COMPONENTS_def NON_SCORE_RELATIVE_MEASURES_def
  RAW_VALUE_COMPONENTS_def sublist_code

text \<open>
  Claim C5. An individual-hazard row with Field Alias
  \<open>Coastal Flooding - Historic Loss Ratio - Population\<close> is extracted to hazard type
  \<open>CoastalFloodEvent\<close> and impacted thing \<open>Person\<close>. The row passes the skip filter exactly
  when neither the loss-component flag nor the impacted-thing flag is set. For every
  individual-hazard row, an impacted thing that contains \<open>Population\<close> becomes \<open>Person\<close>.
\<close>

theorem coastal_flooding_population:
  assumes "field_alias r = ''Coastal Flooding - Historic Loss Ratio - Population''"
    and "\<not> is_composite_row r"
  shows "(should_skip_component fl r \<longleftrightarrow>
            FLAG_SKIP_EAL_COMPONENTS fl \<or> FLAG_SKIP_IMPACTED_THING_COMPONENTS fl)
       \<and> extract_properties_from_row r =
           Inr \<lparr>hazard_type = ''CoastalFloodEvent'', measured_property = ''HistoricLossRatio'',
                measurement_qualifier = '''', impacted_thing = ''Person'',
                unit = '''', is_composite = False, source_row = r\<rparr>
       \<and> (extract_properties_from_ind_hazard_row r' = Inr p'
            \<and> sublist ''Population'' (raw_impacted_thing r') \<longrightarrow> impacted_thing p' = ''Person'')"
proof -
  have "should_skip_component fl r \<longleftrightarrow>
            FLAG_SKIP_EAL_COMPONENTS fl \<or> FLAG_SKIP_IMPACTED_THING_COMPONENTS fl"
    by (simp add: skip_only_defs assms(1))
  moreover have "extract_properties_from_ind_hazard_row r =
           Inr \<lparr>hazard_type = ''CoastalFloodEvent'', measured_property = ''HistoricLossRatio'',
                measurement_qualifier = '''', impacted_thing = ''Person'',
                unit = '''', is_composite = False, source_row = r\<rparr>"
    by (simp add: extract_properties_from_ind_hazard_row_def get_nth_dash_from_field_alias_def
          split_score_unit_def cut_suffix_len_def normalize_unit_for_measured_property_def
          apply_datacommon_alias_def drop_spaces_def strip_def isspace_def whitespace_def
          DATACOMMONS_ALIASES_def py_count_def sublist_code assms(1))
  moreover have "impacted_thing p' = ''Person''"
    if "extract_properties_from_ind_hazard_row r' = Inr p'"
      "sublist ''Population'' (raw_impacted_thing r')"
    using extract_ind_hazard_Inr(3) [OF that(1)] that(2) by simp
  ultimately show ?thesis
    using assms(2) by (simp add: extract_properties_from_row_def)
qed

theorem coastal_flooding_population_witness:
  "\<not> is_composite_row \<lparr>field_name = ''CFLD_HLRP'',
        field_alias = ''Coastal Flooding - Historic Loss Ratio - Population'',
        relevant_layer = ''Coastal Flooding'', version_iso8601 = ''2021-11''\<rparr>
   \<and> \<not> should_skip_component
        \<lparr>FLAG_SKIP_EAL_COMPONENTS = False, FLAG_SKIP_IMPACTED_THING_COMPONENTS = False,
         FLAG_SKIP_NON_SCORE_RELATIVE_MEASURES = True, FLAG_SKIP_RAW_VALUES = True\<rparr>
        \<lparr>field_name = ''CFLD_HLRP'',
         field_alias = ''Coastal Flooding - Historic Loss Ratio - Population'',
         relevant_layer = ''Coastal Flooding'', version_iso8601 = ''2021-11''\<rparr>
   \<and> should_skip_component module_flags
        \<lparr>field_name = ''CFLD_HLRP'',
         field_alias = ''Coastal Flooding - Historic Loss Ratio - Population'',
         relevant_layer = ''Coastal Flooding'', version_iso8601 = ''2021-11''\<rparr>
   \<and> map_sum id impacted_thing (extract_properties_from_row \<lparr>field_name = ''CFLD_HLRP'',
        field_alias = ''Coastal Flooding - Historic Loss Ratio - Population'',
        relevant_layer = ''Coastal Flooding'', version_iso8601 = ''2021-11''\<rparr>) = Inr ''Person''
   \<and> sublist ''Population'' (raw_impacted_thing \<lparr>field_name = ''AVLN_EXPPE'',
        field_alias = ''Avalanche - Exposure - Population Equivalence'',
        relevant_layer = ''Avalanche'', version_iso8601 = ''2021-11''\<rparr>)
   \<and> map_sum id impacted_thing (extract_properties_from_ind_hazard_row
        \<lparr>field_name = ''AVLN_EXPPE'',
         field_alias = ''Avalanche - Exposure - Population Equivalence'',
         relevant_layer = ''Avalanche'', version_iso8601 = ''2021-11''\<rparr>) = Inr ''Person''"
  using coastal_flooding_population [of "\<lparr>field_name = ''CFLD_HLRP'',
        field_alias = ''Coastal Flooding - Historic Loss Ratio - Population'',
        relevant_layer = ''Coastal Flooding'', version_iso8601 = ''2021-11''\<rparr>"
      "\<lparr>FLAG_SKIP_EAL_COMPONENTS = False, FLAG_SKIP_IMPACTED_THING_COMPONENTS = False,
         FLAG_SKIP_NON_SCORE_RELATIVE_MEASURES = True, FLAG_SKIP_RAW_VALUES = True\<rparr>"
      "\<lparr>field_name = ''AVLN_EXPPE'',
         field_alias = ''Avalanche - Exposure - Population Equivalence'',
         relevant_layer = ''Avalanche'', version_iso8601 = ''2021-11''\<rparr>"
      "\<lparr>hazard_type = ''AvalancheEvent'', measured_property = ''Exposure'',
        measurement_qualifier = '''', impacted_thing = ''Person'',
        unit = '''', is_composite = False,
        source_row = \<lparr>field_name = ''AVLN_EXPPE'',
         field_alias = ''Avalanche - Exposure - Population Equivalence'',
         relevant_layer = ''Avalanche'', version_iso8601 = ''2021-11''\<rparr>\<rparr>"]
    coastal_flooding_population [of "\<lparr>field_name = ''CFLD_HLRP'',
        field_alias = ''Coastal Flooding - Historic Loss Ratio - Population'',
        relevant_layer = ''Coastal Flooding'', version_iso8601 = ''2021-11''\<rparr>" module_flags]
  by (simp add: extraction_defs skip_defs raw_impacted_thing_def)

section \<open>Non-empty measured property\<close>

lemma alias_table_values:
  assumes "map_of DATACOMMONS_ALIASES k = Some v"
  shows "v \<noteq> []" and "drop_spaces v = v" and "k \<noteq> []"
  using assms by (auto simp: DATACOMMONS_ALIASES_def drop_spaces_def split: if_splits)

lemma drop_spaces_Nil_iff: "drop_spaces s = [] \<longleftrightarrow> set s \<subseteq> {CHR '' ''}"
  by (auto simp: drop_spaces_def filter_empty_conv)

lemma set_strip_subset: "set (strip s) \<subseteq> set s"
proof -
  have "set (strip s) \<subseteq> set (dropWhile isspace s)"
    unfolding strip_def using set_dropWhileD [of _ isspace "rev (dropWhile isspace s)"] by auto
  also have "\<dots> \<subseteq> set s"
    using set_dropWhileD [of _ isspace s] by auto
  finally show ?thesis .
qed

lemma drop_spaces_strip_Nil: "drop_spaces s = [] \<Longrightarrow> drop_spaces (strip s) = []"
  using set_strip_subset [of s] by (auto simp: drop_spaces_Nil_iff)

lemma drop_spaces_alias_Nil_iff:
  "drop_spaces (apply_datacommon_alias s) = [] \<longleftrightarrow> drop_spaces s = []"
proof (cases "map_of DATACOMMONS_ALIASES (drop_spaces (strip s))")
  case None
  then show ?thesis by (simp add: apply_datacommon_alias_def)
next
  case (Some v)
  from alias_table_values [OF Some] have "drop_spaces (strip s) \<noteq> []" and "drop_spaces v \<noteq> []"
    by simp_all
  with Some drop_spaces_strip_Nil [of s] show ?thesis
    by (auto simp: apply_datacommon_alias_def)
qed

lemma drop_spaces_idem [simp]: "drop_spaces (drop_spaces s) = drop_spaces s"
  by (simp add: drop_spaces_def)

lemma alias_Nil_iff: "apply_datacommon_alias s = [] \<longleftrightarrow> s = []"
proof (cases "map_of DATACOMMONS_ALIASES (drop_spaces (strip s))")
  case None
  then show ?thesis by (simp add: apply_datacommon_alias_def)
next
  case (Some v)
  from alias_table_values [OF Some] have "drop_spaces (strip s) \<noteq> []" and "v \<noteq> []"
    by simp_all
  with Some show ?thesis
    by (auto simp: apply_datacommon_alias_def drop_spaces_def strip_def)
qed

text \<open>
  Claim C4, amended. For every row that is extracted, the measured property of the record
  is non-empty exactly when the text it is read from has a character other than a space:
  segment 0 on the composite path; on the individual-hazard path segment 1, or, when the
  alias of segment 1 contains \<open>Score\<close> or \<open>Rating\<close>, what precedes its last
  space-delimited word. In that last case the alias of segment 1 is taken not to end in a
  space, so that its last space-delimited word is not empty.
\<close>

theorem measured_property_nonempty_iff:
  assumes "extract_properties_from_row r = Inr p"
    and "\<not> is_composite_row r
         \<and> (sublist ''Score'' (apply_datacommon_alias (py_split '' - '' (field_alias r) ! 1))
            \<or> sublist ''Rating'' (apply_datacommon_alias (py_split '' - '' (field_alias r) ! 1)))
         \<longrightarrow>
           last (py_split '' '' (apply_datacommon_alias (py_split '' - '' (field_alias r) ! 1))) \<noteq> []"
  shows "measured_property p \<noteq> [] \<longleftrightarrow> drop_spaces (measured_property_text r) \<noteq> []"
proof (cases "is_composite_row r")
  case True
  with assms(1) have "extract_properties_from_composite_row r = Inr p"
    by (simp add: extract_properties_from_row_def)
  from extract_composite_Inr(2) [OF this]
  have "measured_property p = apply_datacommon_alias (drop_spaces (py_split '' - '' (field_alias r) ! 0))"
    by simp
  with True show ?thesis
    by (simp add: measured_property_text_def Let_def alias_Nil_iff)
next
  case False
  with assms(1) have "extract_properties_from_ind_hazard_row r = Inr p"
    by (simp add: extract_properties_from_row_def)
  from extract_ind_hazard_Inr(3) [OF this]
  have "measured_property p = drop_spaces (fst (split_score_unit
          (apply_datacommon_alias (py_split '' - '' (field_alias r) ! 1))))"
    by simp
  with False assms(2) show ?thesis
    by (simp add: measured_property_text_def Let_def split_score_unit_def cut_suffix_len_def
          drop_spaces_alias_Nil_iff)
qed

theorem measured_property_nonempty_iff_witness:
  "extract_properties_from_row \<lparr>field_name = ''AVLN_EALS'',
        field_alias = ''Avalanche - Expected Annual Loss Score'',
        relevant_layer = ''Avalanche'', version_iso8601 = ''2021-11''\<rparr>
     = Inr \<lparr>hazard_type = ''AvalancheEvent'', measured_property = ''expectedLoss'',
            measurement_qualifier = ''Annual'', impacted_thing = '''',
            unit = ''FemaNationalRiskScore'', is_composite = False,
            source_row = \<lparr>field_name = ''AVLN_EALS'',
              field_alias = ''Avalanche - Expected Annual Loss Score'',
              relevant_layer = ''Avalanche'', version_iso8601 = ''2021-11''\<rparr>\<rparr>
   \<and> last (py_split '' '' (apply_datacommon_alias ''Expected Annual Loss Score'')) = ''Score''
   \<and> drop_spaces (measured_property_text \<lparr>field_name = ''AVLN_EALS'',
        field_alias = ''Avalanche - Expected Annual Loss Score'',
        relevant_layer = ''Avalanche'', version_iso8601 = ''2021-11''\<rparr>) = ''ExpectedAnnualLoss''"
  using measured_property_nonempty_iff [of "\<lparr>field_name = ''AVLN_EALS'',
        field_alias = ''Avalanche - Expected Annual Loss Score'',
        relevant_layer = ''Avalanche'', version_iso8601 = ''2021-11''\<rparr>"
      "\<lparr>hazard_type = ''AvalancheEvent'', measured_property = ''expectedLoss'',
            measurement_qualifier = ''Annual'', impacted_thing = '''',
            unit = ''FemaNationalRiskScore'', is_composite = False,
            source_row = \<lparr>field_name = ''AVLN_EALS'',
              field_alias = ''Avalanche - Expected Annual Loss Score'',
              relevant_layer = ''Avalanche'', version_iso8601 = ''2021-11''\<rparr>\<rparr>"]
  by (simp add: extraction_defs measured_property_text_def)

text \<open>
  The claim as the specification states it fails on the retained individual-hazard row
  \<open>Avalanche - Score\<close>: the alias of \<open>Score\<close> is the unit token itself, the whole of it is
  split off as the unit, and nothing is left for the measured property.
\<close>

theorem measured_property_empty_counterexample:
  "field_name \<lparr>field_name = ''AVLN_S'', field_alias = ''Avalanche - Score'',
        relevant_layer = ''Avalanche'', version_iso8601 = ''2021-11''\<rparr> \<notin> set IGNORED_FIELDS
   \<and> \<not> should_skip_component module_flags
        \<lparr>field_name = ''AVLN_S'', field_alias = ''Avalanche - Score'',
         relevant_layer = ''Avalanche'', version_iso8601 = ''2021-11''\<rparr>
   \<and> extract_properties_from_row
        \<lparr>field_name = ''AVLN_S'', field_alias = ''Avalanche - Score'',
         relevant_layer = ''Avalanche'', version_iso8601 = ''2021-11''\<rparr>
     = Inr \<lparr>hazard_type = ''AvalancheEvent'', measured_property = '''',
            measurement_qualifier = '''', impacted_thing = '''',
            unit = ''FemaNationalRiskScore'', is_composite = False,
            source_row = \<lparr>field_name = ''AVLN_S'', field_alias = ''Avalanche - Score'',
              relevant_layer = ''Avalanche'', version_iso8601 = ''2021-11''\<rparr>\<rparr>"
  by (simp add: extraction_defs skip_defs IGNORED_FIELDS_def)

section \<open>Identifiers\<close>

lemma suffix_single_Cons:
  "suffix [u] (x # cs) \<longleftrightarrow> (if cs = [] then x = u else suffix [u] cs)"
  by (auto simp: suffix_Cons)

lemma prefix_single_append: "x \<noteq> [] \<Longrightarrow> prefix [u] (x @ z) \<longleftrightarrow> prefix [u] x"
  by (cases x) simp_all

lemma suffix_single_append: "y \<noteq> [] \<Longrightarrow> suffix [u] (z @ y) \<longleftrightarrow> suffix [u] y"
proof (cases y rule: rev_cases)
  case Nil
  assume "y \<noteq> []"
  with Nil show ?thesis by simp
next
  case (snoc ys b)
  have "suffix ([] @ [u]) ((z @ ys) @ [b]) \<longleftrightarrow> suffix ([] @ [u]) (ys @ [b])"
    unfolding snoc_suffix_snoc by simp
  then show ?thesis using snoc by simp
qed

lemma sublist_double_append:
  "sublist [u, u] (x @ y) \<longleftrightarrow> sublist [u, u] x \<or> sublist [u, u] y \<or> (suffix [u] x \<and> prefix [u] y)"
proof (induction x)
  case Nil
  show ?case by simp
next
  case (Cons a x)
  show ?case
  proof (cases "x = []")
    case True
    then show ?thesis
      by (auto simp: sublist_Cons_right suffix_single_Cons)
  next
    case False
    have "sublist [u, u] ((a # x) @ y) \<longleftrightarrow> (u = a \<and> prefix [u] x) \<or> sublist [u, u] (x @ y)"
      using False by (simp add: sublist_Cons_right prefix_single_append)
    moreover have "sublist [u, u] (a # x) \<longleftrightarrow> (u = a \<and> prefix [u] x) \<or> sublist [u, u] x"
      by (simp add: sublist_Cons_right)
    moreover have "suffix [u] (a # x) \<longleftrightarrow> suffix [u] x"
      using False by (simp add: suffix_single_Cons)
    ultimately show ?thesis
      using Cons.IH by blast
  qed
qed

lemma upper_not_Nil [simp]: "upper c \<noteq> []"
  by (simp add: upper_def split: option.splits)

lemma upper_underscore_self: "upper CHR ''_'' = ''_''"
  by (simp add: upper_def lower_letters_def upper_letters_def)

lemma upper_no_underscore: "c \<noteq> CHR ''_'' \<Longrightarrow> CHR ''_'' \<notin> set (upper c)"
proof (cases "c = CHR 0xDF")
  case True
  then show ?thesis by (simp add: upper_def)
next
  case False
  assume c: "c \<noteq> CHR ''_''"
  show ?thesis
  proof (cases "map_of (zip lower_letters upper_letters) c")
    case None
    with False c show ?thesis by (simp add: upper_def)
  next
    case (Some u)
    then have "u \<in> set upper_letters"
      by (auto dest: map_of_SomeD set_zip_rightD)
    moreover have "CHR ''_'' \<notin> set upper_letters"
      by (simp add: upper_letters_def)
    ultimately have "u \<noteq> CHR ''_''" by blast
    with False Some show ?thesis by (simp add: upper_def)
  qed
qed

lemma stray_underscores_clean_head:
  assumes "u \<noteq> []" and "CHR ''_'' \<notin> set u"
  shows "stray_underscores (u @ cs) \<longleftrightarrow> suffix ''_'' cs \<or> sublist ''__'' cs"
proof -
  have p: "\<not> prefix ''_'' u" using assms(2) set_mono_prefix [of "''_''" u] by auto
  have s: "\<not> suffix ''_'' u" using assms(2) set_mono_suffix [of "''_''" u] by auto
  have d: "\<not> sublist ''__'' u" using assms(2) set_mono_sublist [of "''__''" u] by auto
  have 1: "\<not> prefix ''_'' (u @ cs)"
    using p assms(1) by (simp add: prefix_single_append)
  have 2: "suffix ''_'' (u @ cs) \<longleftrightarrow> suffix ''_'' cs"
  proof (cases "cs = []")
    case True
    with s show ?thesis by simp
  next
    case False
    then show ?thesis by (rule suffix_single_append)
  qed
  have 3: "sublist ''__'' (u @ cs) \<longleftrightarrow> sublist ''__'' cs"
    using s d by (simp add: sublist_double_append [of _ u])
  show ?thesis
    unfolding stray_underscores_def using 1 2 3 by blast
qed

lemma stray_underscores_upper:
  "stray_underscores (upper c @ cs) = stray_underscores (c # cs)"
proof (cases "c = CHR ''_''")
  case True
  then show ?thesis by (simp add: upper_underscore_self)
next
  case False
  have "stray_underscores (upper c @ cs) \<longleftrightarrow> suffix ''_'' cs \<or> sublist ''__'' cs"
    using False by (intro stray_underscores_clean_head upper_no_underscore upper_not_Nil)
  moreover have "stray_underscores ([c] @ cs) \<longleftrightarrow> suffix ''_'' cs \<or> sublist ''__'' cs"
    using False by (intro stray_underscores_clean_head) simp_all
  ultimately show ?thesis by simp
qed

lemma stray_underscores_join2:
  assumes "x \<noteq> []" "y \<noteq> []" "\<not> stray_underscores x" "\<not> stray_underscores y"
  shows "\<not> stray_underscores (x @ ''_'' @ y)"
proof -
  have p: "\<not> prefix ''_'' (x @ ''_'' @ y)"
    using assms by (simp add: prefix_single_append stray_underscores_def)
  have s: "\<not> suffix ''_'' (x @ ''_'' @ y)"
    using assms suffix_single_append [of y "CHR ''_''" "x @ ''_''"]
    by (simp add: stray_underscores_def)
  have "\<not> sublist ''__'' (''_'' @ y)"
    using assms by (simp add: sublist_Cons_right stray_underscores_def)
  then have d: "\<not> sublist ''__'' (x @ ''_'' @ y)"
    using assms by (simp add: sublist_double_append [of _ x] stray_underscores_def)
  from p s d show ?thesis by (simp add: stray_underscores_def)
qed

lemma stray_underscores_py_join:
  "xs \<noteq> [] \<Longrightarrow> \<forall>x\<in>set xs. x \<noteq> [] \<and> \<not> stray_underscores x \<Longrightarrow>
     py_join ''_'' xs \<noteq> [] \<and> \<not> stray_underscores (py_join ''_'' xs)"
proof (induction "''_''" xs rule: py_join.induct)
  case 1
  then show ?case by simp
next
  case (2 x)
  then show ?case by simp
next
  case (3 x y ys)
  then have "py_join ''_'' (y # ys) \<noteq> [] \<and> \<not> stray_underscores (py_join ''_'' (y # ys))"
    by simp
  with 3(3) stray_underscores_join2 [of x "py_join ''_'' (y # ys)"] show ?case
    by simp
qed

lemma capitalize_each_nonempty:
  "\<forall>x\<in>set xs. x \<noteq> [] \<Longrightarrow> capitalize_each xs = Inr (map (\<lambda>x. upper (hd x) @ tl x) xs)"
  by (induction xs) (auto simp: capitalize_first_def split: list.splits)

lemma ind_hazard_dcid_total:
  "ind_hazard_dcid p =
     Inr (py_join ''_'' (map (\<lambda>x. upper (hd x) @ tl x)
            (filter (\<lambda>element. element \<noteq> [])
               [measurement_qualifier p, measured_property p, ''NaturalHazardImpact'',
                hazard_type p, impacted_thing p])))"
  unfolding ind_hazard_dcid_def Let_def
  by (subst capitalize_each_nonempty) simp_all

lemma stray_underscores_capitalized:
  "x \<noteq> [] \<Longrightarrow> stray_underscores (upper (hd x) @ tl x) = stray_underscores x"
  by (cases x) (simp_all add: stray_underscores_upper)

lemma stray_underscores_capitalized_all:
  "\<forall>x\<in>set l. x \<noteq> [] \<and> \<not> stray_underscores x \<Longrightarrow>
     \<forall>y\<in>set (map (\<lambda>x. upper (hd x) @ tl x) l). y \<noteq> [] \<and> \<not> stray_underscores y"
  by (induction l) (simp_all add: stray_underscores_capitalized)

text \<open>
  Claim C8, amended. When none of the components has a leading underscore, a trailing
  underscore or two consecutive underscores, the identifier has none either: on the
  individual-hazard path, where the empty components are dropped and the identifier is always
  produced, and on the composite path for a non-empty measured property.
\<close>

theorem dcid_without_stray_underscores:
  "(\<not> stray_underscores (measurement_qualifier p) \<and> \<not> stray_underscores (measured_property p)
      \<and> \<not> stray_underscores (hazard_type p) \<and> \<not> stray_underscores (impacted_thing p)
     \<longrightarrow> (\<exists>dcid. map_sum id snd (format_ind_hazard_field_properties_to_schema p) = Inr dcid
                \<and> \<not> stray_underscores dcid))
   \<and> (measured_property p \<noteq> [] \<and> \<not> stray_underscores (measured_property p)
     \<longrightarrow> (\<exists>dcid. map_sum id snd (format_composite_field_properties_to_schema p) = Inr dcid
                \<and> \<not> stray_underscores dcid))"
proof (intro conjI impI)
  assume a: "\<not> stray_underscores (measurement_qualifier p) \<and> \<not> stray_underscores (measured_property p)
      \<and> \<not> stray_underscores (hazard_type p) \<and> \<not> stray_underscores (impacted_thing p)"
  let ?l = "filter (\<lambda>element. element \<noteq> [])
               [measurement_qualifier p, measured_property p, ''NaturalHazardImpact'',
                hazard_type p, impacted_thing p]"
  let ?c = "map (\<lambda>x. upper (hd x) @ tl x) ?l"
  have nhi: "\<not> stray_underscores ''NaturalHazardImpact''"
    by (simp add: stray_underscores_def sublist_code suffix_to_prefix)
  have "\<forall>x\<in>set ?l. x \<noteq> [] \<and> \<not> stray_underscores x"
    using a nhi by auto
  then have "\<forall>x\<in>set ?c. x \<noteq> [] \<and> \<not> stray_underscores x"
    by (rule stray_underscores_capitalized_all)
  moreover have "?c \<noteq> []" by simp
  ultimately have "\<not> stray_underscores (py_join ''_'' ?c)"
    using stray_underscores_py_join [of ?c] by blast
  then show "\<exists>dcid. map_sum id snd (format_ind_hazard_field_properties_to_schema p) = Inr dcid
                \<and> \<not> stray_underscores dcid"
    by (simp add: format_ind_hazard_dcid ind_hazard_dcid_total)
next
  assume a: "measured_property p \<noteq> [] \<and> \<not> stray_underscores (measured_property p)"
  then obtain c cs where mp: "measured_property p = c # cs"
    by (cases "measured_property p") auto
  have nhi: "\<not> stray_underscores ''NaturalHazardImpact''" "\<not> stray_underscores ''Annual''"
    by (simp_all add: stray_underscores_def sublist_code suffix_to_prefix)
  have cap: "\<not> stray_underscores (upper c @ cs)"
    using a mp by (simp add: stray_underscores_upper)
  have 1: "\<not> stray_underscores ((upper c @ cs) @ ''_'' @ ''NaturalHazardImpact'')"
    by (rule stray_underscores_join2) (simp_all add: cap nhi)
  have 2: "\<not> stray_underscores (''Annual'' @ ''_'' @ ((upper c @ cs) @ ''_'' @ ''NaturalHazardImpact''))"
  proof (rule stray_underscores_join2)
    show "\<not> stray_underscores ((upper c @ cs) @ ''_'' @ ''NaturalHazardImpact'')"
      by (rule 1)
  qed (simp_all add: nhi)
  have cf: "capitalize_first (measured_property p) = Inr (upper c @ cs)"
    using mp by (simp add: capitalize_first_def)
  have cd: "composite_dcid p =
      Inr (if measured_property p = ''expectedLoss''
           then ''Annual_'' @ (upper c @ cs) @ ''_NaturalHazardImpact''
           else (upper c @ cs) @ ''_NaturalHazardImpact'')"
    by (simp add: composite_dcid_def cf)
  show "\<exists>dcid. map_sum id snd (format_composite_field_properties_to_schema p) = Inr dcid
                \<and> \<not> stray_underscores dcid"
  proof (cases "measured_property p = ''expectedLoss''")
    case True
    with 2 show ?thesis by (simp add: format_composite_dcid cd)
  next
    case False
    with 1 show ?thesis by (simp add: format_composite_dcid cd)
  qed
qed

theorem dcid_without_stray_underscores_witness:
  "\<not> stray_underscores ''Annual'' \<and> \<not> stray_underscores ''expectedLoss''
   \<and> \<not> stray_underscores ''AvalancheEvent'' \<and> \<not> stray_underscores ''''
   \<and> (\<exists>dcid. map_sum id snd (format_ind_hazard_field_properties_to_schema
          \<lparr>hazard_type = ''AvalancheEvent'', measured_property = ''expectedLoss'',
           measurement_qualifier = ''Annual'', impacted_thing = '''',
           unit = ''FemaNationalRiskScore'', is_composite = False,
           source_row = \<lparr>field_name = ''AVLN_EALS'',
             field_alias = ''Avalanche - Expected Annual Loss Score'',
             relevant_layer = ''Avalanche'', version_iso8601 = ''2021-11''\<rparr>\<rparr>) = Inr dcid
        \<and> \<not> stray_underscores dcid)
   \<and> (\<exists>dcid. map_sum id snd (format_composite_field_properties_to_schema
          \<lparr>hazard_type = '''', measured_property = ''femaNaturalHazardRiskIndex'',
           measurement_qualifier = '''', impacted_thing = '''',
           unit = ''FemaNationalRiskScore'', is_composite = True,
           source_row = \<lparr>field_name = ''RISK_SCORE'',
             field_alias = ''National Risk Index - Score'',
             relevant_layer = ''National Risk Index'', version_iso8601 = ''2021-11''\<rparr>\<rparr>) = Inr dcid
        \<and> \<not> stray_underscores dcid)"
  using dcid_without_stray_underscores [of
          "\<lparr>hazard_type = ''AvalancheEvent'', measured_property = ''expectedLoss'',
           measurement_qualifier = ''Annual'', impacted_thing = '''',
           unit = ''FemaNationalRiskScore'', is_composite = False,
           source_row = \<lparr>field_name = ''AVLN_EALS'',
             field_alias = ''Avalanche - Expected Annual Loss Score'',
             relevant_layer = ''Avalanche'', version_iso8601 = ''2021-11''\<rparr>\<rparr>"]
        dcid_without_stray_underscores [of
          "\<lparr>hazard_type = '''', measured_property = ''femaNaturalHazardRiskIndex'',
           measurement_qualifier = '''', impacted_thing = '''',
           unit = ''FemaNationalRiskScore'', is_composite = True,
           source_row = \<lparr>field_name = ''RISK_SCORE'',
             field_alias = ''National Risk Index - Score'',
             relevant_layer = ''National Risk Index'', version_iso8601 = ''2021-11''\<rparr>\<rparr>"]
  by (simp add: stray_underscores_def sublist_code suffix_to_prefix)

text \<open>
  The claim as the specification states it fails when a component has an underscore at
  its edge: the row \<open>_Avalanche - Expected Annual Loss Score\<close> is extracted to the hazard
  type \<open>_AvalancheEvent\<close>, and the identifier has two consecutive underscores.
\<close>

theorem dcid_stray_underscores_counterexample:
  "extract_properties_from_row
        \<lparr>field_name = ''AVLN_EALS'', field_alias = ''_Avalanche - Expected Annual Loss Score'',
         relevant_layer = ''Avalanche'', version_iso8601 = ''2021-11''\<rparr>
     = Inr \<lparr>hazard_type = ''_AvalancheEvent'', measured_property = ''expectedLoss'',
            measurement_qualifier = ''Annual'', impacted_thing = '''',
            unit = ''FemaNationalRiskScore'', is_composite = False,
            source_row = \<lparr>field_name = ''AVLN_EALS'',
              field_alias = ''_Avalanche - Expected Annual Loss Score'',
              relevant_layer = ''Avalanche'', version_iso8601 = ''2021-11''\<rparr>\<rparr>
   \<and> map_sum id snd (format_ind_hazard_field_properties_to_schema
          \<lparr>hazard_type = ''_AvalancheEvent'', measured_property = ''expectedLoss'',
            measurement_qualifier = ''Annual'', impacted_thing = '''',
            unit = ''FemaNationalRiskScore'', is_composite = False,
            source_row = \<lparr>field_name = ''AVLN_EALS'',
              field_alias = ''_Avalanche - Expected Annual Loss Score'',
              relevant_layer = ''Avalanche'', version_iso8601 = ''2021-11''\<rparr>\<rparr>)
     = Inr ''Annual_ExpectedLoss_NaturalHazardImpact__AvalancheEvent''
   \<and> sublist ''__'' ''Annual_ExpectedLoss_NaturalHazardImpact__AvalancheEvent''
   \<and> stray_underscores ''Annual_ExpectedLoss_NaturalHazardImpact__AvalancheEvent''"
  by (simp add: extraction_defs format_ind_hazard_dcid ind_hazard_dcid_def capitalize_defs
        stray_underscores_def)

section \<open>Display names\<close>

lemma isupper_not_isspace: "isupper c \<Longrightarrow> \<not> isspace c"
  by (auto simp: isupper_def isspace_def upper_letters_def whitespace_def)

lemma strip_single_not_space: "\<not> isspace c \<Longrightarrow> strip [c] = [c]"
  by (simp add: strip_def)

lemma spaced_concat_cong:
  "\<forall>c\<in>set t. \<not> isspace c \<Longrightarrow>
     concat (map (\<lambda>c. if isupper c then CHR '' '' # [c] else strip [c]) t)
     = concat (map (\<lambda>d. if isupper d then [CHR '' '', d] else [d]) t)"
  by (induction t) (simp_all add: strip_single_not_space)

lemma spaced_concat_last:
  "cs \<noteq> [] \<Longrightarrow>
     concat (map (\<lambda>d. if isupper d then [CHR '' '', d] else [d]) cs) \<noteq> []
     \<and> last (concat (map (\<lambda>d. if isupper d then [CHR '' '', d] else [d]) cs)) = last cs"
  by (induction cs rule: rev_induct) auto

lemma dropWhile_rev_last: "xs \<noteq> [] \<Longrightarrow> \<not> P (last xs) \<Longrightarrow> dropWhile P (rev xs) = rev xs"
  by (cases xs rule: rev_cases) simp_all

lemma isspace_space [simp]: "isspace CHR '' ''"
  by (simp add: isspace_def whitespace_def)

lemma add_spaces_spec:
  assumes "\<forall>c\<in>set t. \<not> isspace c"
  shows "add_spaces_before_capital_letters t = spec_space_capitals t"
proof (cases t)
  case Nil
  then show ?thesis
    by (simp add: add_spaces_before_capital_letters_def spec_space_capitals_def strip_def)
next
  case (Cons c cs)
  let ?body = "concat (map (\<lambda>d. if isupper d then [CHR '' '', d] else [d]) cs)"
  from assms Cons have c: "\<not> isspace c" and cs: "\<forall>d\<in>set cs. \<not> isspace d" by simp_all
  have lead: "dropWhile isspace ((if isupper c then [CHR '' '', c] else [c]) @ ?body) = c # ?body"
    using c by simp
  have "\<not> isspace (last (c # ?body))"
  proof (cases "cs = []")
    case True
    with c show ?thesis by simp
  next
    case False
    from spaced_concat_last [OF False]
    have ne: "?body \<noteq> []" and l: "last ?body = last cs" by blast+
    from ne have "last (c # ?body) = last ?body" by (rule last_ConsR)
    moreover have "last cs \<in> set cs" using False by (rule last_in_set)
    ultimately show ?thesis using cs l by (simp only:) blast
  qed
  then have trail: "dropWhile isspace (rev (c # ?body)) = rev (c # ?body)"
    by (intro dropWhile_rev_last) simp_all
  have "add_spaces_before_capital_letters t
        = strip ((if isupper c then [CHR '' '', c] else [c]) @ ?body)"
    unfolding add_spaces_before_capital_letters_def spaced_concat_cong [OF assms]
    by (simp add: Cons)
  also have "\<dots> = c # ?body"
    unfolding strip_def lead trail by simp
  finally show ?thesis by (simp add: spec_space_capitals_def Cons)
qed

lemma py_join_Cons_Cons: "py_join sep ((c # x) # xs) = c # py_join sep (x # xs)"
  by (cases xs) simp_all

lemma py_join_Nil_Cons: "xs \<noteq> [] \<Longrightarrow> py_join sep ([] # xs) = sep @ py_join sep xs"
  by (cases xs) simp_all

lemma py_join_py_split_single: "py_join [c] (py_split [c] s) = s"
proof (induction s)
  case Nil
  show ?case by simp
next
  case (Cons a s)
  show ?case
  proof (cases "a = c")
    case True
    then show ?thesis by (simp add: py_join_Nil_Cons Cons.IH)
  next
    case False
    obtain x xs where sp: "py_split [c] s = x # xs"
      by (cases "py_split [c] s") simp_all
    with False Cons.IH show ?thesis by (simp add: py_join_Cons_Cons)
  qed
qed

lemma py_split_single_no_separator: "c \<notin> set s \<Longrightarrow> py_split [c] s = [s]"
  by (induction s) auto

lemma py_split_single_append:
  "py_split [c] (x @ c # y) = py_split [c] x @ py_split [c] y"
proof (induction x)
  case Nil
  show ?case by simp
next
  case (Cons a x)
  show ?case
  proof (cases "a = c")
    case True
    with Cons.IH show ?thesis by simp
  next
    case False
    obtain z zs where sp: "py_split [c] x = z # zs"
      by (cases "py_split [c] x") simp_all
    with False Cons.IH show ?thesis by simp
  qed
qed

lemma py_join_tl_py_split:
  "py_join '' '' (tl (py_split '' '' s)) = spec_drop_first_word s"
proof (cases "CHR '' '' \<in> set s")
  case False
  then have "takeWhile (\<lambda>c. c \<noteq> CHR '' '') s = s" by (auto simp: takeWhile_eq_all_conv)
  then have "spec_drop_first_word s = drop (Suc (length s)) s"
    unfolding spec_drop_first_word_def by (simp only:)
  then have "spec_drop_first_word s = []"
    by simp
  with False show ?thesis
    by (simp add: py_split_single_no_separator)
next
  case True
  from split_list_first [OF True]
  obtain x y where s: "s = x @ CHR '' '' # y" and x: "CHR '' '' \<notin> set x"
    by blast
  have "py_split '' '' s = x # py_split '' '' y"
    unfolding s py_split_single_append using x by (simp add: py_split_single_no_separator)
  then have "py_join '' '' (tl (py_split '' '' s)) = y"
    by (simp add: py_join_py_split_single)
  moreover have "takeWhile (\<lambda>c. c \<noteq> CHR '' '') s = x"
    unfolding s using x by (induction x) auto
  then have "spec_drop_first_word s = drop (Suc (length x)) (x @ CHR '' '' # y)"
    unfolding spec_drop_first_word_def by (simp only: s)
  then have "spec_drop_first_word s = y"
    by simp
  ultimately show ?thesis by simp
qed

lemma spec_space_capitals_Event:
  "h \<noteq> [] \<Longrightarrow> spec_space_capitals (h @ ''Event'') = spec_space_capitals h @ '' Event''"
  by (cases h) (simp_all add: spec_space_capitals_def isupper_def upper_letters_def)

lemma py_join_butlast_Event:
  "py_join '' '' (butlast (py_split '' '' (spec_space_capitals (h @ ''Event''))))
   = spec_space_capitals h"
proof (cases "h = []")
  case True
  then show ?thesis
    by (simp add: spec_space_capitals_def isupper_def upper_letters_def)
next
  case False
  have "py_split '' '' (spec_space_capitals h @ CHR '' '' # ''Event'')
        = py_split '' '' (spec_space_capitals h) @ py_split '' '' ''Event''"
    by (rule py_split_single_append)
  then have "butlast (py_split '' '' (spec_space_capitals (h @ ''Event'')))
             = py_split '' '' (spec_space_capitals h)"
    by (simp add: spec_space_capitals_Event [OF False])
  then show ?thesis by (simp add: py_join_py_split_single)
qed

lemma spec_remove_event_append: "spec_remove_event (h @ ''Event'') = h"
  by (simp add: spec_remove_event_def suffix_def)

lemma display_name_spec_record:
  assumes "\<forall>c\<in>set (measured_property p). \<not> isspace c"
    and "\<not> is_comp \<longrightarrow>
           suffix ''Event'' (hazard_type p) \<and> (\<forall>c\<in>set (hazard_type p). \<not> isspace c)"
  shows "format_human_readable_name_from_properties p is_comp = spec_display_name p is_comp"
proof -
  have base: "add_spaces_before_capital_letters (measured_property p)
              = spec_space_capitals (measured_property p)"
    using assms(1) by (rule add_spaces_spec)
  show ?thesis
  proof (cases is_comp)
    case True
    then show ?thesis
      by (simp add: format_human_readable_name_from_properties_def spec_display_name_def
            Let_def base py_join_tl_py_split)
  next
    case False
    with assms(2) obtain h where h: "hazard_type p = h @ ''Event''"
      and ws: "\<forall>c\<in>set (hazard_type p). \<not> isspace c"
      by (auto simp: suffix_def)
    have "add_spaces_before_capital_letters (hazard_type p) = spec_space_capitals (h @ ''Event'')"
      using ws add_spaces_spec [of "hazard_type p"] by (simp only: h)
    then have "py_join '' '' (butlast (py_split '' '' (add_spaces_before_capital_letters (hazard_type p))))
               = spec_space_capitals (spec_remove_event (hazard_type p))"
      by (simp only: py_join_butlast_Event h spec_remove_event_append)
    with False show ?thesis
      by (simp add: format_human_readable_name_from_properties_def spec_display_name_def
            Let_def base py_join_tl_py_split)
  qed
qed

lemma set_py_split_subset: "x \<in> set (py_split sep s) \<Longrightarrow> set x \<subseteq> set s"
proof (induction sep s arbitrary: x rule: py_split.induct)
  case (1 sep)
  then show ?case by simp
next
  case (2 sep c cs)
  show ?case
  proof (cases "sep \<noteq> [] \<and> prefix sep (c # cs)")
    case True
    with "2.prems" have "x = [] \<or> x \<in> set (py_split sep (drop (length sep - 1) cs))"
      by auto
    then show ?thesis
    proof
      assume "x = []"
      then show ?thesis by simp
    next
      assume "x \<in> set (py_split sep (drop (length sep - 1) cs))"
      with "2.IH"(1) [OF True] have "set x \<subseteq> set (drop (length sep - 1) cs)" by blast
      with set_drop_subset [of "length sep - 1" cs] show ?thesis by auto
    qed
  next
    case False
    obtain y ys where sp: "py_split sep cs = y # ys"
      by (cases "py_split sep cs") simp_all
    from False sp "2.prems" have "x = c # y \<or> x \<in> set ys"
      by auto
    moreover from "2.IH"(2) [OF False] sp have "set y \<subseteq> set cs" and "\<forall>z\<in>set ys. set z \<subseteq> set cs"
      by simp_all
    ultimately show ?thesis by auto
  qed
qed

lemma plain_spaces_subset: "set x \<subseteq> set s \<Longrightarrow> plain_spaces s \<Longrightarrow> plain_spaces x"
  by (auto simp: plain_spaces_def)

lemma plain_spaces_segment:
  "plain_spaces s \<Longrightarrow> i < length (py_split sep s) \<Longrightarrow> plain_spaces (py_split sep s ! i)"
  using set_py_split_subset [of "py_split sep s ! i" sep s] plain_spaces_subset by simp

lemma alias_table_no_whitespace:
  "map_of DATACOMMONS_ALIASES k = Some v \<Longrightarrow> \<not> list_ex isspace v"
  by (auto simp: DATACOMMONS_ALIASES_def isspace_def whitespace_def split: if_splits)

lemma plain_spaces_alias: "plain_spaces s \<Longrightarrow> plain_spaces (apply_datacommon_alias s)"
proof (cases "map_of DATACOMMONS_ALIASES (drop_spaces (strip s))")
  case None
  assume "plain_spaces s"
  with None show ?thesis by (simp add: apply_datacommon_alias_def)
next
  case (Some v)
  from alias_table_no_whitespace [OF Some] have "plain_spaces v"
    by (auto simp: plain_spaces_def list_ex_iff)
  with Some show ?thesis by (simp add: apply_datacommon_alias_def)
qed

lemma drop_spaces_no_whitespace: "plain_spaces s \<Longrightarrow> \<not> list_ex isspace (drop_spaces s)"
  by (auto simp: plain_spaces_def list_ex_iff drop_spaces_def)

lemma no_whitespace_plain: "\<not> list_ex isspace s \<Longrightarrow> plain_spaces s"
  by (auto simp: plain_spaces_def list_ex_iff)

lemma no_whitespace_alias:
  "\<not> list_ex isspace s \<Longrightarrow> \<not> list_ex isspace (apply_datacommon_alias s)"
proof (cases "map_of DATACOMMONS_ALIASES (drop_spaces (strip s))")
  case None
  assume "\<not> list_ex isspace s"
  with None show ?thesis by (simp add: apply_datacommon_alias_def)
next
  case (Some v)
  from alias_table_no_whitespace [OF Some] Some show ?thesis
    by (simp add: apply_datacommon_alias_def)
qed

lemma plain_spaces_split_score_unit:
  "plain_spaces a \<Longrightarrow> plain_spaces (fst (split_score_unit a))"
proof -
  assume a: "plain_spaces a"
  have "plain_spaces (cut_suffix_len a u)" for u
    using a set_take_subset [of "length a - length u" a]
    by (auto simp: cut_suffix_len_def plain_spaces_def)
  with a show ?thesis
    by (simp add: split_score_unit_def Let_def plain_spaces_alias)
qed

lemma extracted_tokens:
  assumes "extract_properties_from_row r = Inr p" and "plain_spaces (field_alias r)"
  shows "\<not> list_ex isspace (measured_property p)"
    and "\<not> is_composite p \<Longrightarrow> suffix ''Event'' (hazard_type p) \<and> \<not> list_ex isspace (hazard_type p)"
proof -
  let ?segs = "py_split '' - '' (field_alias r)"
  have seg: "plain_spaces (?segs ! i)" if "i < length ?segs" for i
    using assms(2) that by (rule plain_spaces_segment)
  show "\<not> list_ex isspace (measured_property p)"
  proof (cases "is_composite_row r")
    case True
    with assms(1) have ex: "extract_properties_from_composite_row r = Inr p"
      by (simp add: extract_properties_from_row_def)
    from extract_composite_Inr(2) [OF ex]
    have "measured_property p = apply_datacommon_alias (drop_spaces (?segs ! 0))" by simp
    with seg [of 0] show ?thesis
      by (simp add: no_whitespace_alias drop_spaces_no_whitespace)
  next
    case False
    with assms(1) have ex: "extract_properties_from_ind_hazard_row r = Inr p"
      by (simp add: extract_properties_from_row_def)
    from extract_ind_hazard_Inr(3) [OF ex]
    have "measured_property p
          = drop_spaces (fst (split_score_unit (apply_datacommon_alias (?segs ! 1))))" by simp
    with seg [OF extract_ind_hazard_Inr(1) [OF ex]] show ?thesis
      by (simp add: drop_spaces_no_whitespace plain_spaces_split_score_unit plain_spaces_alias)
  qed
  show "suffix ''Event'' (hazard_type p) \<and> \<not> list_ex isspace (hazard_type p)"
    if "\<not> is_composite p"
  proof (cases "is_composite_row r")
    case True
    with assms(1) have ex: "extract_properties_from_composite_row r = Inr p"
      by (simp add: extract_properties_from_row_def)
    from extract_composite_Inr(2) [OF ex] that show ?thesis by simp
  next
    case False
    with assms(1) have ex: "extract_properties_from_ind_hazard_row r = Inr p"
      by (simp add: extract_properties_from_row_def)
    from extract_ind_hazard_Inr(3) [OF ex]
    have h: "hazard_type p = (if drop_spaces (?segs ! 0) @ ''Event'' = ''CoastalFloodingEvent''
                              then ''CoastalFloodEvent'' else drop_spaces (?segs ! 0) @ ''Event'')"
      by simp
    have ev: "\<forall>c\<in>set ''Event''. \<not> isspace c" "\<forall>c\<in>set ''CoastalFloodEvent''. \<not> isspace c"
      by (simp_all add: isspace_def whitespace_def)
    have d: "\<forall>c\<in>set (drop_spaces (?segs ! 0)). \<not> isspace c"
      using drop_spaces_no_whitespace [OF seg [of 0]] by (simp add: list_ex_iff)
    have "suffix ''Event'' (hazard_type p)"
      unfolding h by (simp add: suffix_to_prefix)
    moreover have "\<forall>c\<in>set (hazard_type p). \<not> isspace c"
    proof (cases "drop_spaces (?segs ! 0) @ ''Event'' = ''CoastalFloodingEvent''")
      case True
      with h have "hazard_type p = ''CoastalFloodEvent''" by simp
      with ev(2) show ?thesis by (simp only:)
    next
      case False
      with h have "hazard_type p = drop_spaces (?segs ! 0) @ ''Event''" by simp
      with ev(1) d show ?thesis by (simp only: set_append) blast
    qed
    ultimately show ?thesis by (simp add: list_ex_iff)
  qed
qed

text \<open>
  Claim C9, amended. The display name is a function of the properties and of the composite
  flag. For a measured property and a hazard type without whitespace characters, it is the
  name the specification describes: the fixed phrase for \<open>expectedLoss\<close>, the fixed phrase
  for \<open>femaNaturalHazardRiskIndex\<close>, and otherwise \<open>FEMA\<close>, the property with a space
  before every internal capital letter and without its first word, and
  \<open>to Natural Hazard Impact\<close>; for a non-composite record, whose hazard type ends in
  \<open>Event\<close>, followed by a colon, a space and the hazard type without that suffix, spaced in
  the same way. The record of every extracted row whose alias has no whitespace character
  but the space is such a record.
\<close>

theorem display_name_refines_spec:
  "((\<forall>c\<in>set (measured_property p). \<not> isspace c)
     \<and> (\<not> is_comp \<longrightarrow>
           suffix ''Event'' (hazard_type p) \<and> (\<forall>c\<in>set (hazard_type p). \<not> isspace c))
     \<longrightarrow> format_human_readable_name_from_properties p is_comp = spec_display_name p is_comp)
   \<and> (extract_properties_from_row r = Inr q \<and> plain_spaces (field_alias r)
     \<longrightarrow> format_human_readable_name_from_properties q (is_composite q)
           = spec_display_name q (is_composite q))"
proof (intro conjI impI)
  assume "(\<forall>c\<in>set (measured_property p). \<not> isspace c)
     \<and> (\<not> is_comp \<longrightarrow>
           suffix ''Event'' (hazard_type p) \<and> (\<forall>c\<in>set (hazard_type p). \<not> isspace c))"
  then show "format_human_readable_name_from_properties p is_comp = spec_display_name p is_comp"
    by (intro display_name_spec_record) simp_all
next
  assume a: "extract_properties_from_row r = Inr q \<and> plain_spaces (field_alias r)"
  then have "\<not> list_ex isspace (measured_property q)"
    and "\<not> is_composite q \<Longrightarrow> suffix ''Event'' (hazard_type q) \<and> \<not> list_ex isspace (hazard_type q)"
    using extracted_tokens [of r q] by simp_all
  then show "format_human_readable_name_from_properties q (is_composite q)
           = spec_display_name q (is_composite q)"
    by (intro display_name_spec_record) (simp_all add: list_ex_iff)
qed

theorem display_name_refines_spec_witness:
  "\<not> list_ex isspace ''HistoricLossRatio''
   \<and> suffix ''Event'' ''CoastalFloodEvent''
   \<and> \<not> list_ex isspace ''CoastalFloodEvent''
   \<and> format_human_readable_name_from_properties
         \<lparr>hazard_type = ''CoastalFloodEvent'', measured_property = ''HistoricLossRatio'',
          measurement_qualifier = '''', impacted_thing = ''Person'',
          unit = '''', is_composite = False,
          source_row = \<lparr>field_name = ''CFLD_HLRP'',
            field_alias = ''Coastal Flooding - Historic Loss Ratio - Population'',
            relevant_layer = ''Coastal Flooding'', version_iso8601 = ''2021-11''\<rparr>\<rparr> False
       = ''FEMA Loss Ratio to Natural Hazard Impact: Coastal Flood''
   \<and> extract_properties_from_row
         \<lparr>field_name = ''SOVI_SCORE'', field_alias = ''Social Vulnerability - Score'',
          relevant_layer = ''Social Vulnerability'', version_iso8601 = ''2021-11''\<rparr>
       = Inr \<lparr>hazard_type = '''', measured_property = ''femaSocialVulnerability'',
          measurement_qualifier = '''', impacted_thing = '''',
          unit = ''FemaNationalRiskScore'', is_composite = True,
          source_row = \<lparr>field_name = ''SOVI_SCORE'',
            field_alias = ''Social Vulnerability - Score'',
            relevant_layer = ''Social Vulnerability'', version_iso8601 = ''2021-11''\<rparr>\<rparr>
   \<and> format_human_readable_name_from_properties
         \<lparr>hazard_type = '''', measured_property = ''femaSocialVulnerability'',
          measurement_qualifier = '''', impacted_thing = '''',
          unit = ''FemaNationalRiskScore'', is_composite = True,
          source_row = \<lparr>field_name = ''SOVI_SCORE'',
            field_alias = ''Social Vulnerability - Score'',
            relevant_layer = ''Social Vulnerability'', version_iso8601 = ''2021-11''\<rparr>\<rparr> True
       = ''FEMA Social Vulnerability to Natural Hazard Impact''"
  (is "_ \<and> _ \<and> _ \<and> format_human_readable_name_from_properties ?p False = _
       \<and> extract_properties_from_row ?r = Inr ?q \<and> _")
proof -
  have tok: "\<forall>c\<in>set (measured_property ?p). \<not> isspace c"
    "suffix ''Event'' (hazard_type ?p)" "\<forall>c\<in>set (hazard_type ?p). \<not> isspace c"
    by (simp_all add: isspace_def whitespace_def suffix_to_prefix)
  have ex: "extract_properties_from_row ?r = Inr ?q"
    by (simp add: extraction_defs)
  have plain: "plain_spaces (field_alias ?r)"
    by (simp add: plain_spaces_def isspace_def whitespace_def)
  have spec: "spec_display_name ?p False = ''FEMA Loss Ratio to Natural Hazard Impact: Coastal Flood''"
    "spec_display_name ?q True = ''FEMA Social Vulnerability to Natural Hazard Impact''"
    by (simp_all add: spec_display_name_def spec_space_capitals_def spec_drop_first_word_def
          spec_remove_event_def isupper_def upper_letters_def suffix_to_prefix)
  have "format_human_readable_name_from_properties ?p False = spec_display_name ?p False"
    and "format_human_readable_name_from_properties ?q (is_composite ?q)
         = spec_display_name ?q (is_composite ?q)"
    using display_name_refines_spec [of ?p False ?r ?q] tok ex plain by blast+
  with spec ex tok show ?thesis
    by (simp add: list_ex_iff)
qed

text \<open>
  The claim as the specification states it fails when a token holds a whitespace character:
  the code deletes it, the specification's words keep it. The retained row whose alias is
  \<open>Coastal\<close>, a tab, \<open>Flood - Wind Speed\<close> is named \<open>\<dots>: Coastal Flood\<close> by the code.
\<close>

theorem display_name_whitespace_counterexample:
  "field_name \<lparr>field_name = ''CFLD_WS'',
        field_alias = ''Coastal'' @ [CHR 0x09] @ ''Flood - Wind Speed'',
        relevant_layer = ''Coastal Flooding'', version_iso8601 = ''2021-11''\<rparr> \<notin> set IGNORED_FIELDS
   \<and> \<not> should_skip_component module_flags
        \<lparr>field_name = ''CFLD_WS'',
         field_alias = ''Coastal'' @ [CHR 0x09] @ ''Flood - Wind Speed'',
         relevant_layer = ''Coastal Flooding'', version_iso8601 = ''2021-11''\<rparr>
   \<and> extract_properties_from_row
        \<lparr>field_name = ''CFLD_WS'',
         field_alias = ''Coastal'' @ [CHR 0x09] @ ''Flood - Wind Speed'',
         relevant_layer = ''Coastal Flooding'', version_iso8601 = ''2021-11''\<rparr>
     = Inr \<lparr>hazard_type = ''Coastal'' @ [CHR 0x09] @ ''FloodEvent'',
            measured_property = ''WindSpeed'',
            measurement_qualifier = '''', impacted_thing = '''',
            unit = '''', is_composite = False,
            source_row = \<lparr>field_name = ''CFLD_WS'',
              field_alias = ''Coastal'' @ [CHR 0x09] @ ''Flood - Wind Speed'',
              relevant_layer = ''Coastal Flooding'', version_iso8601 = ''2021-11''\<rparr>\<rparr>
   \<and> format_human_readable_name_from_properties
        \<lparr>hazard_type = ''Coastal'' @ [CHR 0x09] @ ''FloodEvent'',
         measured_property = ''WindSpeed'',
         measurement_qualifier = '''', impacted_thing = '''',
         unit = '''', is_composite = False,
         source_row = \<lparr>field_name = ''CFLD_WS'',
           field_alias = ''Coastal'' @ [CHR 0x09] @ ''Flood - Wind Speed'',
           relevant_layer = ''Coastal Flooding'', version_iso8601 = ''2021-11''\<rparr>\<rparr> False
     = ''FEMA Speed to Natural Hazard Impact: Coastal Flood''
   \<and> spec_display_name
        \<lparr>hazard_type = ''Coastal'' @ [CHR 0x09] @ ''FloodEvent'',
         measured_property = ''WindSpeed'',
         measurement_qualifier = '''', impacted_thing = '''',
         unit = '''', is_composite = False,
         source_row = \<lparr>field_name = ''CFLD_WS'',
           field_alias = ''Coastal'' @ [CHR 0x09] @ ''Flood - Wind Speed'',
           relevant_layer = ''Coastal Flooding'', version_iso8601 = ''2021-11''\<rparr>\<rparr> False
     = ''FEMA Speed to Natural Hazard Impact: Coastal'' @ [CHR 0x09] @ '' Flood''"
  by (simp add: extraction_defs skip_defs IGNORED_FIELDS_def
        format_human_readable_name_from_properties_def add_spaces_before_capital_letters_def
        spec_display_name_def spec_space_capitals_def spec_drop_first_word_def
        spec_remove_event_def isupper_def upper_letters_def suffix_to_prefix)

section \<open>Deduplication of the three output sequences\<close>





end
